theory Spec2Isabelle
  imports Complex_Main "HOL-Library.Multiset"
begin

section \<open>Volatility estimator (logic.py, calculate\_atr)\<close>

text \<open>
  Prices are modelled as real numbers (the idealisation of the float64 values of the
  price series); a missing (NaN) entry of a pandas series is \<open>None\<close>.
  Only the window mode of \<open>calculate_atr\<close> is modelled: the engine never calls the
  rolling mode (\<open>window=None\<close>). The window is a natural number; \<open>tail(0)\<close> is the
  empty series, as in pandas.
\<close>

text \<open>\<open>prices.diff().abs()\<close>: the first entry is missing, entry \<open>i\<close> is \<open>|p[i] - p[i-1]|\<close>.\<close>

fun diff_abs :: "real list \<Rightarrow> real option list" where
  "diff_abs [] = []"
| "diff_abs (p # ps) = None # map (\<lambda>(a, b). Some \<bar>b - a\<bar>) (zip (p # ps) ps)"

definition tail :: "nat \<Rightarrow> 'a list \<Rightarrow> 'a list" where
  "tail n xs = drop (length xs - n) xs"

fun dropna :: "'a option list \<Rightarrow> 'a list" where
  "dropna [] = []"
| "dropna (None # xs) = dropna xs"
| "dropna (Some x # xs) = x # dropna xs"

text \<open>The mean of an empty series is NaN.\<close>

definition mean :: "real list \<Rightarrow> real option" where
  "mean xs = (if xs = [] then None else Some (sum_list xs / real (length xs)))"

definition calculate_atr :: "real list \<Rightarrow> nat \<Rightarrow> real \<Rightarrow> real" where
  "calculate_atr prices window last_valid_atr =
     (let high_low = diff_abs prices;
          atr = mean (dropna (tail window high_low))
      in case atr of
           None \<Rightarrow> last_valid_atr
         | Some a \<Rightarrow>
             if length (dropna (tail window high_low)) \<ge> window div 2 then a
             else last_valid_atr)"

text \<open>The absolute tick-to-tick changes of a series, without the missing leading entry.\<close>

definition abs_changes :: "real list \<Rightarrow> real list" where
  "abs_changes prices = map (\<lambda>(a, b). \<bar>b - a\<bar>) (zip prices (tl prices))"

section \<open>Data model (logic.py, DynamicGridBacktest)\<close>

text \<open>
  A timestamp is the number of microseconds since the epoch, so that the date and the
  time of day of a tick and the whole days between two ticks are arithmetic.
\<close>

type_synonym timestamp = int

definition day_us :: int where
  "day_us = 86400000000"

definition date_of :: "timestamp \<Rightarrow> int" where
  "date_of t = t div day_us"

definition time_of_day :: "timestamp \<Rightarrow> int" where
  "time_of_day t = t mod day_us"

text \<open>\<open>time(h, m)\<close> and \<open>pd.Timestamp.combine(date, time)\<close>.\<close>

definition time_hm :: "int \<Rightarrow> int \<Rightarrow> int" where
  "time_hm h m = (h * 60 + m) * 60000000"

definition combine :: "int \<Rightarrow> int \<Rightarrow> timestamp" where
  "combine d t = d * day_us + t"

datatype side = BUY | SELL

text \<open>A position is the tuple \<open>(side, entry_price, size)\<close>.\<close>

type_synonym position = "side \<times> real \<times> real"

datatype kind =
  OPEN side | TAKE_PROFIT side | CLOSE_PAIR | CLOSE side | TOTAL_FEE | OVERNIGHT_FEE

text \<open>An entry of \<open>trade_history\<close>: \<open>(timestamp, kind, price, size, profit, fee)\<close>.\<close>

record trade_record =
  tr_time :: timestamp
  tr_kind :: kind
  tr_price :: real
  tr_size :: real
  tr_profit :: real
  tr_fee :: real

text \<open>
  The constructor's arguments. \<open>margin_rate\<close> is stored and never read, and is left out.
\<close>

record config =
  init_capital :: real
  contract_value :: real
  fee_per_trade :: real
  grid_size_factor :: real
  minimum_grid_size :: real
  move_pivot :: real
  max_loss :: real
  take_profit_factor :: real

definition max_contracts :: real where "max_contracts = 12"
definition max_positions :: nat where "max_positions = 12"
definition daily_fee_limit :: real where "daily_fee_limit = 50000000"
definition short_atr_window :: nat where "short_atr_window = 60"

text \<open>
  The mutable attributes of the object, together with the two locals \<open>grid_size\<close> and
  \<open>size\<close> of \<open>backtest\<close> that live across loop iterations. \<open>equity_series\<close> has one
  slot per tick; a slot never written is missing (NaN).

  \<open>capital_np\<close> is the dynamic type of \<open>self.capital\<close>: the constructor's Python number
  (false) until a profit is added to it, and a numpy float64 (true) from then on, every
  profit being computed from a price read out of the pandas series. Subtracting the
  overnight fee, a Python integer, keeps the type. The type decides what a division by a
  zero capital does: Python raises \<open>ZeroDivisionError\<close>, numpy yields a non-finite value.
\<close>

record state =
  capital :: real
  positions :: "position list"
  trades :: "(side \<times> real \<times> real \<times> real) list"
  trade_history :: "trade_record list"
  last_date :: int
  daily_fee :: real
  last_valid_atr :: real
  daily_atr :: "real option"
  current_pivot :: real
  equity_series :: "real option list"
  grid_size :: "real option"
  size_lvl :: real
  capital_np :: bool

section \<open>Session clock\<close>

definition is_trading_time :: "timestamp \<Rightarrow> bool" where
  "is_trading_time t \<longleftrightarrow> time_hm 9 0 \<le> time_of_day t \<and> time_of_day t \<le> time_hm 14 29"

definition is_end_of_day :: "timestamp \<Rightarrow> bool" where
  "is_end_of_day t \<longleftrightarrow> time_hm 14 29 \<le> time_of_day t \<and> time_of_day t \<le> time_hm 14 30"

section \<open>Fees\<close>

definition check_daily_fee :: "timestamp \<Rightarrow> real option \<Rightarrow> state \<Rightarrow> bool \<times> state" where
  "check_daily_fee t fee st =
     (let current_date = date_of t;
          st1 = (if last_date st \<noteq> current_date
                 then st\<lparr>daily_fee := 0, last_date := current_date\<rparr> else st);
          st2 = st1\<lparr>daily_fee := daily_fee st1 + (case fee of None \<Rightarrow> 0 | Some f \<Rightarrow> f)\<rparr>
      in (daily_fee st2 > daily_fee_limit, st2))"

definition apply_overnight_fee :: "timestamp \<Rightarrow> state \<Rightarrow> state" where
  "apply_overnight_fee t st =
     (if positions st \<noteq> [] then
        let total_overnight_fee = real (length (positions st)) * 2550
        in st\<lparr>capital := capital st - total_overnight_fee,
              trade_history := trade_history st @
                [\<lparr>tr_time = t, tr_kind = OVERNIGHT_FEE, tr_price = 0,
                  tr_size = real (length (positions st)), tr_profit = 0,
                  tr_fee = total_overnight_fee\<rparr>]\<rparr>
      else st)"

section \<open>Force-close-all\<close>

text \<open>
  The loop of \<open>close_all_positions\<close> runs over a copy of the ledger and removes each
  position from the ledger by value (\<open>list.remove\<close> deletes the first equal element).
  The accumulator carries the object and the locals \<open>total_profit\<close>, \<open>total_fee\<close>.
\<close>

fun close_positions ::
  "config \<Rightarrow> real \<Rightarrow> timestamp \<Rightarrow> position list \<Rightarrow> state \<times> real \<times> real \<Rightarrow> state \<times> real \<times> real"
where
  "close_positions cfg current_price t [] acc = acc"
| "close_positions cfg current_price t ((sd, entry_price, sz) # rest) (st, total_profit, total_fee) =
     (let profit_before_fee =
            (if sd = BUY then current_price - entry_price else entry_price - current_price)
              * sz * contract_value cfg;
          fee = fee_per_trade cfg * contract_value cfg;
          profit = profit_before_fee - fee;
          st' = st\<lparr>capital := capital st + profit, capital_np := True,
                   positions := remove1 (sd, entry_price, sz) (positions st),
                   trade_history := trade_history st @
                     [\<lparr>tr_time = t, tr_kind = CLOSE sd, tr_price = current_price,
                       tr_size = sz, tr_profit = profit, tr_fee = fee\<rparr>]\<rparr>
      in close_positions cfg current_price t rest (st', total_profit + profit, total_fee + fee))"

definition close_all_positions :: "config \<Rightarrow> real \<Rightarrow> timestamp \<Rightarrow> state \<Rightarrow> state \<times> real" where
  "close_all_positions cfg current_price t st =
     (case close_positions cfg current_price t (positions st) (st, 0, 0) of
        (st1, total_profit, total_fee) \<Rightarrow>
          (if total_fee > 0
           then st1\<lparr>trade_history := trade_history st1 @
                  [\<lparr>tr_time = t, tr_kind = TOTAL_FEE, tr_price = current_price,
                    tr_size = 0, tr_profit = 0, tr_fee = total_fee\<rparr>]\<rparr>
           else st1,
           total_profit))"

section \<open>Grid calculator\<close>

text \<open>
  \<open>calculate_grid\<close> returns \<open>(grid_size, size_per_level)\<close> and updates
  \<open>last_valid_atr\<close>. A NaN argument \<open>current_atr\<close> is \<open>None\<close>. The short-window ATR
  is never NaN (\<open>calculate_atr\<close> returns its fallback then), so the source's second NaN
  test has no branch here.
\<close>

definition calculate_grid ::
  "config \<Rightarrow> state \<Rightarrow> real \<Rightarrow> real option \<Rightarrow> (timestamp \<times> real) list \<Rightarrow> nat
     \<Rightarrow> real \<times> real \<times> state"
where
  "calculate_grid cfg st current_price current_atr prices index =
     (let st1 = (case current_atr of None \<Rightarrow> st | Some a \<Rightarrow> st\<lparr>last_valid_atr := a\<rparr>);
          atr = (case current_atr of None \<Rightarrow> last_valid_atr st | Some a \<Rightarrow> a);
          grid0 = min (max (grid_size_factor cfg * atr) (minimum_grid_size cfg)) 10;
          total_open_contracts = sum_list (map (\<lambda>p. snd (snd p)) (positions st1));
          size_per_level = (if total_open_contracts + 1 > max_contracts then 0 else 1);
          grid1 =
            (if index \<ge> short_atr_window then
               let short_atr = calculate_atr (map snd (take (index + 1) prices))
                                 short_atr_window (last_valid_atr st1)
               in min (max grid0 (short_atr * grid_size_factor cfg)) 10
             else grid0)
      in (grid1, size_per_level, st1))"

text \<open>
  The pivot move, written three times in \<open>backtest\<close> (on a pivot breach and in the two
  max-loss branches): close everything, move the pivot to the current price, recompute
  the grid from the short-window ATR.
\<close>

definition rebase_pivot ::
  "config \<Rightarrow> (timestamp \<times> real) list \<Rightarrow> nat \<Rightarrow> state \<Rightarrow> state"
where
  "rebase_pivot cfg prices i st =
     (let current_price = snd (prices ! i);
          t = fst (prices ! i);
          st1 = fst (close_all_positions cfg current_price t st);
          st2 = st1\<lparr>current_pivot := current_price\<rparr>;
          current_atr = calculate_atr (map snd (take (i + 1) prices)) short_atr_window
                          (last_valid_atr st2)
      in case calculate_grid cfg st2 current_price (Some current_atr) prices i of
           (g, sz, st3) \<Rightarrow> st3\<lparr>grid_size := Some g, size_lvl := sz\<rparr>)"

section \<open>Exits: take-profit and max-loss\<close>

definition max_loss_per_trade :: "config \<Rightarrow> real" where
  "max_loss_per_trade cfg = 500000 * max_loss cfg"

definition unrealized_profit :: "config \<Rightarrow> real \<Rightarrow> position \<Rightarrow> real" where
  "unrealized_profit cfg current_price pos =
     (case pos of (sd, entry_price, size_pos) \<Rightarrow>
        (if sd = BUY then (current_price - entry_price) * size_pos * contract_value cfg
         else (entry_price - current_price) * size_pos * contract_value cfg))"

definition unrealized_loss :: "config \<Rightarrow> real \<Rightarrow> position \<Rightarrow> real" where
  "unrealized_loss cfg current_price pos =
     (case pos of (sd, entry_price, size_pos) \<Rightarrow>
        (if sd = BUY
         then (if current_price < entry_price
               then (entry_price - current_price) * size_pos * contract_value cfg else 0)
         else (if current_price > entry_price
               then (current_price - entry_price) * size_pos * contract_value cfg else 0)))"

text \<open>
  The loop over a copy of the ledger. The result carries \<open>forced_close_triggered\<close>;
  the max-loss branch ends the loop (\<open>break\<close>).
\<close>

fun exit_positions ::
  "config \<Rightarrow> (timestamp \<times> real) list \<Rightarrow> nat \<Rightarrow> real \<Rightarrow> position list \<Rightarrow> state \<Rightarrow> state \<times> bool"
where
  "exit_positions cfg prices i take_profit [] st = (st, False)"
| "exit_positions cfg prices i take_profit (pos # rest) st =
     (let current_price = snd (prices ! i);
          t = fst (prices ! i);
          profit = unrealized_profit cfg current_price pos
      in if profit \<ge> take_profit then
           let fee = fee_per_trade cfg * contract_value cfg;
               st' = st\<lparr>capital := capital st + (profit - fee), capital_np := True,
                        positions := remove1 pos (positions st),
                        trade_history := trade_history st @
                          [\<lparr>tr_time = t, tr_kind = TAKE_PROFIT (fst pos),
                            tr_price = current_price, tr_size = snd (snd pos),
                            tr_profit = profit - fee, tr_fee = fee\<rparr>]\<rparr>
           in exit_positions cfg prices i take_profit rest st'
         else if unrealized_loss cfg current_price pos \<ge> max_loss_per_trade cfg then
           (rebase_pivot cfg prices i st, True)
         else exit_positions cfg prices i take_profit rest st)"

section \<open>Entries: grid levels and pairing\<close>

text \<open>
  \<open>round(x, 1)\<close>: to one decimal, a tie going to the even neighbour.
\<close>

definition round1 :: "real \<Rightarrow> real" where
  "round1 x =
     (let y = x * 10; f = \<lfloor>y\<rfloor>; r = y - of_int f
      in (if r < 1 / 2 then of_int f
          else if r > 1 / 2 then of_int (f + 1)
          else if even f then of_int f else of_int (f + 1)) / 10)"

definition max_buys :: int where "max_buys = 6"
definition max_sells :: int where "max_sells = 6"

definition in_band :: "side \<Rightarrow> real \<Rightarrow> real \<Rightarrow> position list \<Rightarrow> bool" where
  "in_band sd current_price g ps =
     list_ex (\<lambda>p. fst p = sd \<and> \<bar>fst (snd p) - current_price\<bar> < g * 0.5) ps"

text \<open>
  The accumulator of the level loop is \<open>(num_buys, num_sells, object)\<close>. \<open>try_buy\<close> is
  the first \<open>if\<close> of the loop body; its flag is true when the body ends there
  (\<open>continue\<close> after a pair close). \<open>try_sell\<close> is the second \<open>if\<close>.
\<close>

definition try_buy ::
  "config \<Rightarrow> real \<Rightarrow> timestamp \<Rightarrow> real \<Rightarrow> real \<Rightarrow> nat \<Rightarrow> int \<times> int \<times> state
     \<Rightarrow> bool \<times> int \<times> int \<times> state"
where
  "try_buy cfg current_price t g sz n acc =
     (case acc of (num_buys, num_sells, st) \<Rightarrow>
        let buy_level = round1 (current_pivot st - (real n - 0.5) * g)
        in if num_buys < max_buys \<and> current_price \<le> buy_level
               \<and> \<not> in_band BUY current_price g (positions st)
           then
             let st1 = st\<lparr>positions := positions st @ [(BUY, current_price, sz)],
                          trades := trades st @ [(BUY, current_price, current_price, sz)],
                          trade_history := trade_history st @
                            [\<lparr>tr_time = t, tr_kind = OPEN BUY, tr_price = current_price,
                              tr_size = sz, tr_profit = 0, tr_fee = 0\<rparr>]\<rparr>
             in (case filter (\<lambda>p. fst p = SELL) (positions st1) of
                   [] \<Rightarrow> (False, num_buys + 1, num_sells, st1)
                 | sell_pos # _ \<Rightarrow>
                     let profit_before_fee =
                           (fst (snd sell_pos) - current_price) * sz * contract_value cfg;
                         fee = fee_per_trade cfg * contract_value cfg;
                         profit = profit_before_fee - fee;
                         st2 = st1\<lparr>capital := capital st1 + profit, capital_np := True,
                                   positions := remove1 (BUY, current_price, sz)
                                                  (remove1 sell_pos (positions st1)),
                                   trade_history := trade_history st1 @
                                     [\<lparr>tr_time = t, tr_kind = CLOSE_PAIR,
                                       tr_price = current_price, tr_size = sz,
                                       tr_profit = profit, tr_fee = fee\<rparr>]\<rparr>
                     in (True, num_buys + 1 - 1, num_sells - 1, st2))
           else (False, num_buys, num_sells, st))"

definition try_sell ::
  "config \<Rightarrow> real \<Rightarrow> timestamp \<Rightarrow> real \<Rightarrow> real \<Rightarrow> nat \<Rightarrow> int \<times> int \<times> state
     \<Rightarrow> int \<times> int \<times> state"
where
  "try_sell cfg current_price t g sz n acc =
     (case acc of (num_buys, num_sells, st) \<Rightarrow>
        let sell_level = round1 (current_pivot st + (real n - 0.5) * g)
        in if num_sells < max_sells \<and> current_price \<ge> sell_level
               \<and> \<not> in_band SELL current_price g (positions st)
           then
             let st1 = st\<lparr>positions := positions st @ [(SELL, current_price, sz)],
                          trades := trades st @ [(SELL, current_price, current_price, sz)],
                          trade_history := trade_history st @
                            [\<lparr>tr_time = t, tr_kind = OPEN SELL, tr_price = current_price,
                              tr_size = sz, tr_profit = 0, tr_fee = 0\<rparr>]\<rparr>
             in (case filter (\<lambda>p. fst p = BUY) (positions st1) of
                   [] \<Rightarrow> (num_buys, num_sells + 1, st1)
                 | buy_pos # _ \<Rightarrow>
                     let profit_before_fee =
                           (current_price - fst (snd buy_pos)) * sz * contract_value cfg;
                         fee = fee_per_trade cfg * contract_value cfg;
                         profit = profit_before_fee - fee;
                         st2 = st1\<lparr>capital := capital st1 + profit, capital_np := True,
                                   positions := remove1 (SELL, current_price, sz)
                                                  (remove1 buy_pos (positions st1)),
                                   trade_history := trade_history st1 @
                                     [\<lparr>tr_time = t, tr_kind = CLOSE_PAIR,
                                       tr_price = current_price, tr_size = sz,
                                       tr_profit = profit, tr_fee = fee\<rparr>]\<rparr>
                     in (num_buys - 1, num_sells + 1 - 1, st2))
           else (num_buys, num_sells, st))"

fun grid_levels ::
  "config \<Rightarrow> real \<Rightarrow> timestamp \<Rightarrow> real \<Rightarrow> real \<Rightarrow> nat list \<Rightarrow> int \<times> int \<times> state \<Rightarrow> state"
where
  "grid_levels cfg current_price t g sz [] acc = snd (snd acc)"
| "grid_levels cfg current_price t g sz (n # rest) acc =
     (case try_buy cfg current_price t g sz n acc of
        (paired, acc1) \<Rightarrow>
          if paired then grid_levels cfg current_price t g sz rest acc1
          else grid_levels cfg current_price t g sz rest
                 (try_sell cfg current_price t g sz n acc1))"

text \<open>
  The guard of the entry block is a short-circuit conjunction: \<open>check_daily_fee\<close> (which
  writes the object) is called only when the first two conjuncts hold, and is called
  whatever \<open>forced_close_triggered\<close> is.
\<close>

definition open_entries :: "config \<Rightarrow> real \<Rightarrow> timestamp \<Rightarrow> bool \<Rightarrow> state \<Rightarrow> state" where
  "open_entries cfg current_price t forced_close_triggered st =
     (if length (positions st) < max_positions \<and> size_lvl st > 0 then
        (case check_daily_fee t (Some 0) st of
           (over_limit, st1) \<Rightarrow>
             if \<not> over_limit \<and> \<not> forced_close_triggered then
               let num_buys = int (length (filter (\<lambda>p. fst p = BUY) (positions st1)));
                   num_sells = int (length (filter (\<lambda>p. fst p = SELL) (positions st1)))
               in grid_levels cfg current_price t (the (grid_size st1)) (size_lvl st1)
                    [1..<7] (num_buys, num_sells, st1)
             else st1)
      else st)"

section \<open>Backtest engine\<close>

text \<open>The mark-to-market equity of line 276: capital plus the open positions' P&L.\<close>

definition current_equity :: "config \<Rightarrow> real \<Rightarrow> state \<Rightarrow> real" where
  "current_equity cfg current_price st =
     capital st + sum_list (map (\<lambda>p.
        if fst p = SELL then (fst (snd p) - current_price) * snd (snd p) * contract_value cfg
        else (current_price - fst (snd p)) * snd (snd p) * contract_value cfg) (positions st))"

definition mark_equity :: "nat \<Rightarrow> real \<Rightarrow> state \<Rightarrow> state" where
  "mark_equity i v st = st\<lparr>equity_series := (equity_series st)[i := Some v]\<rparr>"

text \<open>
  One iteration of the loop either goes on to the next tick or leaves \<open>backtest\<close> with
  \<open>return None\<close> because the capital is negative; the object at that moment is kept.
\<close>

datatype tick_result = Next state | Insolvent state

definition init_grid ::
  "config \<Rightarrow> (timestamp \<times> real) list \<Rightarrow> nat \<Rightarrow> real \<Rightarrow> state \<Rightarrow> state"
where
  "init_grid cfg prices i current_atr st =
     (case grid_size st of
        None \<Rightarrow>
          (case calculate_grid cfg st (snd (prices ! i)) (Some current_atr) prices i of
             (g, sz, st1) \<Rightarrow> st1\<lparr>grid_size := Some g, size_lvl := sz\<rparr>)
      | Some g \<Rightarrow> st)"

definition pivot_breached :: "config \<Rightarrow> real \<Rightarrow> state \<Rightarrow> bool" where
  "pivot_breached cfg current_price st \<longleftrightarrow>
     (let buypivot = current_pivot st - move_pivot cfg * the (grid_size st);
          sellpivot = current_pivot st + move_pivot cfg * the (grid_size st)
      in current_price < buypivot \<or> current_price > sellpivot)"

text \<open>
  Lines 161 to 285, the part of the loop body that a trading-time tick reaches, in two
  halves. \<open>exit_phase\<close> is lines 161 to 220: the lazy grid initialisation, the pivot
  breach, then take-profit and max-loss over the ledger; it gives the object and
  \<open>forced_close_triggered\<close>. \<open>entry_phase\<close> is lines 222 to 285: new entries, the equity
  mark, the insolvency exit and the liquidation on the last tick.
\<close>

definition exit_phase ::
  "config \<Rightarrow> (timestamp \<times> real) list \<Rightarrow> nat \<Rightarrow> real \<Rightarrow> state \<Rightarrow> state \<times> bool"
where
  "exit_phase cfg prices i current_atr st =
     (let current_price = snd (prices ! i);
          st1 = init_grid cfg prices i current_atr st;
          st2 = (if pivot_breached cfg current_price st1
                 then rebase_pivot cfg prices i st1 else st1);
          take_profit = take_profit_factor cfg * the (grid_size st2) * contract_value cfg
      in exit_positions cfg prices i take_profit (positions st2) st2)"

definition entry_phase ::
  "config \<Rightarrow> (timestamp \<times> real) list \<Rightarrow> nat \<Rightarrow> state \<times> bool \<Rightarrow> tick_result"
where
  "entry_phase cfg prices i r =
     (case r of
        (st3, forced_close_triggered) \<Rightarrow>
          let current_price = snd (prices ! i);
              t = fst (prices ! i);
              st4 = open_entries cfg current_price t forced_close_triggered st3;
              st5 = mark_equity i (current_equity cfg current_price st4) st4
          in if capital st5 < 0 then Insolvent st5
             else if i = length prices - 1 \<and> positions st5 \<noteq> [] then
               let st6 = fst (close_all_positions cfg current_price t st5)
               in Next (mark_equity i (capital st6) st6)
             else Next st5)"

definition evaluate_tick ::
  "config \<Rightarrow> (timestamp \<times> real) list \<Rightarrow> nat \<Rightarrow> real \<Rightarrow> state \<Rightarrow> tick_result"
where
  "evaluate_tick cfg prices i current_atr st =
     entry_phase cfg prices i (exit_phase cfg prices i current_atr st)"

definition overnight_step :: "timestamp \<Rightarrow> state \<Rightarrow> state" where
  "overnight_step t st =
     (if date_of t \<noteq> last_date st
      then (apply_overnight_fee t st)\<lparr>last_date := date_of t\<rparr> else st)"

text \<open>
  The daily ATR: computed when \<open>daily_atr\<close> is still \<open>None\<close> at a trading-time tick, from
  the ticks of the whole series that lie in 08:45 to 09:00 of the tick's date.
\<close>

definition daily_atr_step :: "(timestamp \<times> real) list \<Rightarrow> timestamp \<Rightarrow> state \<Rightarrow> state" where
  "daily_atr_step prices t st =
     (if daily_atr st = None \<and> is_trading_time t then
        let start_time = combine (date_of t) (time_hm 8 45);
            end_time = combine (date_of t) (time_hm 9 0);
            daily_initial_data = filter (\<lambda>q. fst q \<ge> start_time \<and> fst q < end_time) prices
        in if length daily_initial_data \<ge> 2
           then st\<lparr>daily_atr := Some (calculate_atr (map snd daily_initial_data)
                                         (length daily_initial_data) 1)\<rparr>
           else st\<lparr>daily_atr := Some (last_valid_atr st)\<rparr>
      else st)"

text \<open>The ATR handed to the grid: the daily one in trading time, else the last valid one.\<close>

definition current_atr_of :: "timestamp \<Rightarrow> state \<Rightarrow> real" where
  "current_atr_of t st =
     (case daily_atr st of
        Some a \<Rightarrow> if is_trading_time t then a else last_valid_atr st
      | None \<Rightarrow> last_valid_atr st)"

definition tick :: "config \<Rightarrow> (timestamp \<times> real) list \<Rightarrow> nat \<Rightarrow> state \<Rightarrow> tick_result" where
  "tick cfg prices i st =
     (let current_price = snd (prices ! i);
          t = fst (prices ! i);
          last_data_date = date_of (fst (last prices));
          st1 = overnight_step t st;
          st2 = daily_atr_step prices t st1;
          current_atr = current_atr_of t st2
      in if date_of t = last_data_date \<and> time_of_day t \<ge> time_hm 14 29 \<and> positions st2 \<noteq> []
         then let st3 = fst (close_all_positions cfg current_price t st2)
              in Next (mark_equity i (capital st3) st3)
         else if \<not> is_trading_time t \<and> \<not> is_end_of_day t \<and> positions st2 \<noteq> [] then Next st2
         else if \<not> is_trading_time t \<or> is_end_of_day t
         then Next (mark_equity i (capital st2) st2)
         else evaluate_tick cfg prices i current_atr st2)"

text \<open>The loop \<open>for i in range(1, len(prices))\<close>, over the list of its indices.\<close>

fun run_ticks :: "config \<Rightarrow> (timestamp \<times> real) list \<Rightarrow> nat list \<Rightarrow> state \<Rightarrow> tick_result" where
  "run_ticks cfg prices [] st = Next st"
| "run_ticks cfg prices (i # rest) st =
     (case tick cfg prices i st of
        Insolvent s \<Rightarrow> Insolvent s
      | Next s \<Rightarrow> run_ticks cfg prices rest s)"

text \<open>
  The object when the loop starts: the constructor's values, overwritten by lines 110 to
  121 of \<open>backtest\<close> (pivot and date of the first tick, the equity series with its first
  slot written).
\<close>

definition start_state :: "config \<Rightarrow> (timestamp \<times> real) list \<Rightarrow> state" where
  "start_state cfg prices =
     \<lparr>capital = init_capital cfg, positions = [], trades = [], trade_history = [],
      last_date = date_of (fst (hd prices)), daily_fee = 0, last_valid_atr = 1,
      daily_atr = None, current_pivot = snd (hd prices),
      equity_series = (replicate (length prices) None)[0 := Some (init_capital cfg)],
      grid_size = None, size_lvl = 0, capital_np = False\<rparr>"

section \<open>Performance analytics\<close>

text \<open>
  Of the metrics, the holding-period return, the turnover ratio, the final capital and
  the equity curve without its missing entries are modelled. The annualised return, the
  drawdown statistics and the Sharpe and Sortino ratios are floating-point reductions
  (powers, square roots); of these only the one failure is kept: \<open>252 / days\<close> raises
  \<open>ZeroDivisionError\<close> when the equity curve spans less than one whole day, \<open>days\<close>
  being a Python integer. The turnover ratio divides Python numbers by \<open>self.capital\<close>:
  with a zero capital that is still a Python number the division raises
  \<open>ZeroDivisionError\<close>; with a zero capital that is a float64 the quotient, like every
  quotient of float64 values whose divisor is zero, is not a finite number and is \<open>None\<close>.
\<close>

record metrics =
  hpr :: "real option"
  turnover_ratio :: "real option"
  final_capital :: real
  equity_curve :: "(timestamp \<times> real) list"

datatype py_exception = ZeroDivisionError

text \<open>
  What a call gives its caller: \<open>None\<close> (the explicit failure result), a metrics bundle,
  or an exception that nothing in the repository catches.
\<close>

datatype outcome = Failure | Result metrics | Raised py_exception

text \<open>\<open>equity_series.dropna()\<close>, with the index.\<close>

fun dropna_indexed :: "(timestamp \<times> real) list \<Rightarrow> real option list \<Rightarrow> (timestamp \<times> real) list" where
  "dropna_indexed (q # qs) (Some e # es) = (fst q, e) # dropna_indexed qs es"
| "dropna_indexed (q # qs) (None # es) = dropna_indexed qs es"
| "dropna_indexed _ _ = []"

definition calculate_performance_metrics ::
  "config \<Rightarrow> (timestamp \<times> real) list \<Rightarrow> state \<Rightarrow> outcome"
where
  "calculate_performance_metrics cfg prices st =
     (let equity = dropna_indexed prices (equity_series st)
      in if equity = [] then Failure
         else
           let h = (if snd (hd equity) = 0 then None
                    else Some ((snd (last equity) / snd (hd equity) - 1) * 100));
               days = (fst (last equity) - fst (hd equity)) div day_us
           in if days = 0 then Raised ZeroDivisionError
              else
                let total_volume = sum_list (map (\<lambda>trade. \<bar>snd (snd (snd trade))\<bar>) (trades st));
                    turnover = (if capital st = 0 then None
                                else Some (total_volume * contract_value cfg / capital st * 100))
                in if capital st = 0 \<and> \<not> capital_np st then Raised ZeroDivisionError
                   else Result \<lparr>hpr = h, turnover_ratio = turnover,
                                 final_capital = snd (last equity), equity_curve = equity\<rparr>)"

text \<open>
  \<open>run_loop\<close> is the loop of \<open>backtest\<close> from the start state, for a non-empty series;
  \<open>backtest\<close> is the value the call returns (or the exception it raises).
\<close>

definition run_loop :: "config \<Rightarrow> (timestamp \<times> real) list \<Rightarrow> tick_result" where
  "run_loop cfg prices = run_ticks cfg prices [1..<length prices] (start_state cfg prices)"

definition backtest :: "config \<Rightarrow> (timestamp \<times> real) list \<Rightarrow> outcome" where
  "backtest cfg prices =
     (if prices = [] then Failure
      else
        (case run_loop cfg prices of
           Insolvent s \<Rightarrow> Failure
         | Next s \<Rightarrow> calculate_performance_metrics cfg prices s))"

text \<open>The object carried by a loop result.\<close>

fun state_of :: "tick_result \<Rightarrow> state" where
  "state_of (Next s) = s"
| "state_of (Insolvent s) = s"

section \<open>Notions used in the statements\<close>

text \<open>
  What closing one position at \<open>current_price\<close> adds to the capital (the side-signed
  price difference times size times contract value, less the flat fee), and the trade
  record that \<open>close_all_positions\<close> writes for it.
\<close>

definition close_profit :: "config \<Rightarrow> real \<Rightarrow> position \<Rightarrow> real" where
  "close_profit cfg current_price pos =
     (case pos of (sd, entry_price, sz) \<Rightarrow>
        (if sd = BUY then current_price - entry_price else entry_price - current_price)
          * sz * contract_value cfg - fee_per_trade cfg * contract_value cfg)"

definition close_record :: "config \<Rightarrow> real \<Rightarrow> timestamp \<Rightarrow> position \<Rightarrow> trade_record" where
  "close_record cfg current_price t pos =
     \<lparr>tr_time = t, tr_kind = CLOSE (fst pos), tr_price = current_price,
      tr_size = snd (snd pos), tr_profit = close_profit cfg current_price pos,
      tr_fee = fee_per_trade cfg * contract_value cfg\<rparr>"

text \<open>The number of open positions of one side, and the caps of the ledger.\<close>

definition count_side :: "side \<Rightarrow> position list \<Rightarrow> nat" where
  "count_side sd ps = length (filter (\<lambda>p. fst p = sd) ps)"

definition ledger_ok :: "state \<Rightarrow> bool" where
  "ledger_ok st \<longleftrightarrow>
     length (positions st) \<le> max_positions
     \<and> count_side BUY (positions st) \<le> 6 \<and> count_side SELL (positions st) \<le> 6"

text \<open>The invariant of the level loop: the two counters are the ledger's side counts.\<close>

definition counters_ok :: "int \<times> int \<times> state \<Rightarrow> bool" where
  "counters_ok acc \<longleftrightarrow>
     (case acc of (num_buys, num_sells, st) \<Rightarrow>
        num_buys = int (count_side BUY (positions st))
        \<and> num_sells = int (count_side SELL (positions st))
        \<and> num_buys \<le> 6 \<and> num_sells \<le> 6)"

text \<open>
  The max-loss check fires on some position of the list: one that is not closed by the
  take-profit check and whose loss has reached \<open>max_loss_per_trade\<close>.
\<close>

definition max_loss_hit :: "config \<Rightarrow> real \<Rightarrow> real \<Rightarrow> position list \<Rightarrow> bool" where
  "max_loss_hit cfg current_price take_profit ps \<longleftrightarrow>
     list_ex (\<lambda>pos. \<not> unrealized_profit cfg current_price pos \<ge> take_profit
                   \<and> unrealized_loss cfg current_price pos \<ge> max_loss_per_trade cfg) ps"

text \<open>
  The object of tick \<open>i\<close> when the pivot-breach check is made (after the date rollover,
  the daily ATR and the lazy grid initialisation), and the condition under which the
  tick moves the pivot: the tick lies in 09:00 to 14:29 (end excluded) and either the
  price is strictly outside the pivot band or the max-loss check fires.
\<close>

definition at_breach_check :: "config \<Rightarrow> (timestamp \<times> real) list \<Rightarrow> nat \<Rightarrow> state \<Rightarrow> state" where
  "at_breach_check cfg prices i st =
     (let t = fst (prices ! i);
          st2 = daily_atr_step prices t (overnight_step t st)
      in init_grid cfg prices i (current_atr_of t st2) st2)"

definition pivot_moved :: "config \<Rightarrow> (timestamp \<times> real) list \<Rightarrow> nat \<Rightarrow> state \<Rightarrow> bool" where
  "pivot_moved cfg prices i st \<longleftrightarrow>
     (let t = fst (prices ! i);
          current_price = snd (prices ! i);
          st1 = at_breach_check cfg prices i st;
          g = the (grid_size st1)
      in is_trading_time t \<and> \<not> is_end_of_day t
         \<and> (current_price < current_pivot st1 - move_pivot cfg * g
              \<or> current_price > current_pivot st1 + move_pivot cfg * g
              \<or> max_loss_hit cfg current_price (take_profit_factor cfg * g * contract_value cfg)
                   (positions st1)))"

text \<open>
  The object of tick \<open>i\<close> and the flag \<open>forced_close_triggered\<close> when the exit
  checks of the tick (pivot breach, take-profit, max-loss) are done and the entries are
  not yet evaluated, for a tick that is evaluated: the loop body up to line 220.
\<close>

definition tick_exits ::
  "config \<Rightarrow> (timestamp \<times> real) list \<Rightarrow> nat \<Rightarrow> state \<Rightarrow> state \<times> bool"
where
  "tick_exits cfg prices i st =
     (let t = fst (prices ! i);
          st2 = daily_atr_step prices t (overnight_step t st)
      in exit_phase cfg prices i (current_atr_of t st2) st2)"

text \<open>
  A tick that the loop skips without touching the equity series: off-hours, outside the
  end-of-day window, with open positions, and not the final liquidation of the last date.
\<close>

definition tick_skipped :: "(timestamp \<times> real) list \<Rightarrow> nat \<Rightarrow> state \<Rightarrow> bool" where
  "tick_skipped prices i st \<longleftrightarrow>
     (let t = fst (prices ! i)
      in \<not> (date_of t = date_of (fst (last prices)) \<and> time_of_day t \<ge> time_hm 14 29)
         \<and> \<not> is_trading_time t \<and> \<not> is_end_of_day t \<and> positions st \<noteq> [])"

text \<open>The profit fields of a trade log, and the fee fields of its overnight-fee records.\<close>

definition logged_profit :: "trade_record list \<Rightarrow> real" where
  "logged_profit th = sum_list (map tr_profit th)"

definition logged_overnight_fees :: "trade_record list \<Rightarrow> real" where
  "logged_overnight_fees th =
     sum_list (map tr_fee (filter (\<lambda>r. tr_kind r = OVERNIGHT_FEE) th))"

text \<open>
  The part of the capital that the trade log does not account for: the capital, less the
  logged profits, plus the logged overnight fees.
\<close>

definition book_balance :: "state \<Rightarrow> real" where
  "book_balance st =
     capital st - logged_profit (trade_history st) + logged_overnight_fees (trade_history st)"

section \<open>Concrete runs\<close>

text \<open>The constructor's default arguments, and the same with \<open>max_loss = 1\<close>.\<close>

definition default_config :: config where
  "default_config =
     \<lparr>init_capital = 500000000, contract_value = 100000, fee_per_trade = 0.47,
      grid_size_factor = 1.47, minimum_grid_size = 0.4, move_pivot = 6, max_loss = 20,
      take_profit_factor = 1\<rparr>"

definition tight_config :: config where
  "tight_config =
     \<lparr>init_capital = 500000000, contract_value = 100000, fee_per_trade = 0.47,
      grid_size_factor = 1.47, minimum_grid_size = 0.4, move_pivot = 6, max_loss = 1,
      take_profit_factor = 1\<rparr>"

text \<open>The tick of day \<open>d\<close> at \<open>h:m\<close>.\<close>

definition stamp :: "int \<Rightarrow> int \<Rightarrow> int \<Rightarrow> timestamp" where
  "stamp d h m = combine d (time_hm h m)"

text \<open>
  A position is opened on day 1, marked at a loss one minute later, and carried into
  day 2, where the series ends on a pre-market tick.
\<close>

definition prices_carry :: "(timestamp \<times> real) list" where
  "prices_carry =
     [(stamp 0 9 0, 100), (stamp 1 9 1, 99), (stamp 1 9 2, 98.5), (stamp 2 8 50, 98.5)]"

definition carry_0 :: state where
  "carry_0 =
     \<lparr>capital = 500000000, positions = [],
     trades = [],
     trade_history = [],
     last_date = 0, daily_fee = 0, last_valid_atr = 1, daily_atr = None,
     current_pivot = 100,
     equity_series = [Some 500000000, None, None, None],
     grid_size = None, size_lvl = 0, capital_np = False\<rparr>"

definition carry_1 :: state where
  "carry_1 =
     \<lparr>capital = 500000000, positions = [(BUY, 99, 1)],
     trades = [(BUY, 99, 99, 1)],
     trade_history = [
       \<lparr>tr_time = stamp 1 9 1, tr_kind = OPEN BUY, tr_price = 99, tr_size = 1, tr_profit = 0, tr_fee = 0\<rparr>],
     last_date = 1, daily_fee = 0, last_valid_atr = 1, daily_atr = Some 1,
     current_pivot = 100,
     equity_series = [Some 500000000, Some 500000000, None, None],
     grid_size = Some (147 / 100), size_lvl = 1, capital_np = False\<rparr>"

definition carry_2 :: state where
  "carry_2 =
     \<lparr>capital = 500000000, positions = [(BUY, 99, 1)],
     trades = [(BUY, 99, 99, 1)],
     trade_history = [
       \<lparr>tr_time = stamp 1 9 1, tr_kind = OPEN BUY, tr_price = 99, tr_size = 1, tr_profit = 0, tr_fee = 0\<rparr>],
     last_date = 1, daily_fee = 0, last_valid_atr = 1, daily_atr = Some 1,
     current_pivot = 100,
     equity_series = [Some 500000000, Some 500000000, Some 499950000, None],
     grid_size = Some (147 / 100), size_lvl = 1, capital_np = False\<rparr>"

definition carry_3 :: state where
  "carry_3 =
     \<lparr>capital = 499997450, positions = [(BUY, 99, 1)],
     trades = [(BUY, 99, 99, 1)],
     trade_history = [
       \<lparr>tr_time = stamp 1 9 1, tr_kind = OPEN BUY, tr_price = 99, tr_size = 1, tr_profit = 0, tr_fee = 0\<rparr>, 
       \<lparr>tr_time = stamp 2 8 50, tr_kind = OVERNIGHT_FEE, tr_price = 0, tr_size = 1, tr_profit = 0, tr_fee = 2550\<rparr>],
     last_date = 2, daily_fee = 0, last_valid_atr = 1, daily_atr = Some 1,
     current_pivot = 100,
     equity_series = [Some 500000000, Some 500000000, Some 499950000, None],
     grid_size = Some (147 / 100), size_lvl = 1, capital_np = False\<rparr>"

text \<open>
  With \<open>max_loss = 1\<close>: a BUY is opened at 99 and the price then falls to 93, a loss
  of 600000 on the position, with the price still inside the pivot band.
\<close>

definition prices_stop :: "(timestamp \<times> real) list" where
  "prices_stop =
     [(stamp 0 9 0, 100), (stamp 0 9 1, 99), (stamp 0 9 2, 93)]"

definition stop_0 :: state where
  "stop_0 =
     \<lparr>capital = 500000000, positions = [],
     trades = [],
     trade_history = [],
     last_date = 0, daily_fee = 0, last_valid_atr = 1, daily_atr = None,
     current_pivot = 100,
     equity_series = [Some 500000000, None, None],
     grid_size = None, size_lvl = 0, capital_np = False\<rparr>"

definition stop_1 :: state where
  "stop_1 =
     \<lparr>capital = 500000000, positions = [(BUY, 99, 1)],
     trades = [(BUY, 99, 99, 1)],
     trade_history = [
       \<lparr>tr_time = stamp 0 9 1, tr_kind = OPEN BUY, tr_price = 99, tr_size = 1, tr_profit = 0, tr_fee = 0\<rparr>],
     last_date = 0, daily_fee = 0, last_valid_atr = 1, daily_atr = Some 1,
     current_pivot = 100,
     equity_series = [Some 500000000, Some 500000000, None],
     grid_size = Some (147 / 100), size_lvl = 1, capital_np = False\<rparr>"

definition stop_2 :: state where
  "stop_2 =
     \<lparr>capital = 499353000, positions = [],
     trades = [(BUY, 99, 99, 1)],
     trade_history = [
       \<lparr>tr_time = stamp 0 9 1, tr_kind = OPEN BUY, tr_price = 99, tr_size = 1, tr_profit = 0, tr_fee = 0\<rparr>, 
       \<lparr>tr_time = stamp 0 9 2, tr_kind = CLOSE BUY, tr_price = 93, tr_size = 1, tr_profit = - 647000, tr_fee = 47000\<rparr>, 
       \<lparr>tr_time = stamp 0 9 2, tr_kind = TOTAL_FEE, tr_price = 93, tr_size = 0, tr_profit = 0, tr_fee = 47000\<rparr>],
     last_date = 0, daily_fee = 0, last_valid_atr = 1, daily_atr = Some 1,
     current_pivot = 93,
     equity_series = [Some 500000000, Some 500000000, Some 499353000],
     grid_size = Some (147 / 100), size_lvl = 1, capital_np = True\<rparr>"

text \<open>
  Two days; the second has two pre-market ticks in 08:45 to 09:00.
\<close>

definition prices_two_day :: "(timestamp \<times> real) list" where
  "prices_two_day =
     [(stamp 0 9 0, 100), (stamp 0 9 1, 100), (stamp 1 8 45, 100), (stamp 1 8 50, 103),
      (stamp 1 9 0, 103)]"

definition two_day_0 :: state where
  "two_day_0 =
     \<lparr>capital = 500000000, positions = [],
     trades = [],
     trade_history = [],
     last_date = 0, daily_fee = 0, last_valid_atr = 1, daily_atr = None,
     current_pivot = 100,
     equity_series = [Some 500000000, None, None, None, None],
     grid_size = None, size_lvl = 0, capital_np = False\<rparr>"

definition two_day_1 :: state where
  "two_day_1 =
     \<lparr>capital = 500000000, positions = [],
     trades = [],
     trade_history = [],
     last_date = 0, daily_fee = 0, last_valid_atr = 1, daily_atr = Some 1,
     current_pivot = 100,
     equity_series = [Some 500000000, Some 500000000, None, None, None],
     grid_size = Some (147 / 100), size_lvl = 1, capital_np = False\<rparr>"

definition two_day_2 :: state where
  "two_day_2 =
     \<lparr>capital = 500000000, positions = [],
     trades = [],
     trade_history = [],
     last_date = 1, daily_fee = 0, last_valid_atr = 1, daily_atr = Some 1,
     current_pivot = 100,
     equity_series = [Some 500000000, Some 500000000, Some 500000000, None, None],
     grid_size = Some (147 / 100), size_lvl = 1, capital_np = False\<rparr>"

definition two_day_3 :: state where
  "two_day_3 =
     \<lparr>capital = 500000000, positions = [],
     trades = [],
     trade_history = [],
     last_date = 1, daily_fee = 0, last_valid_atr = 1, daily_atr = Some 1,
     current_pivot = 100,
     equity_series = [Some 500000000, Some 500000000, Some 500000000, Some 500000000, None],
     grid_size = Some (147 / 100), size_lvl = 1, capital_np = False\<rparr>"

definition two_day_4 :: state where
  "two_day_4 =
     \<lparr>capital = 499953000, positions = [],
     trades = [(SELL, 103, 103, 1)],
     trade_history = [
       \<lparr>tr_time = stamp 1 9 0, tr_kind = OPEN SELL, tr_price = 103, tr_size = 1, tr_profit = 0, tr_fee = 0\<rparr>, 
       \<lparr>tr_time = stamp 1 9 0, tr_kind = CLOSE SELL, tr_price = 103, tr_size = 1, tr_profit = - 47000, tr_fee = 47000\<rparr>, 
       \<lparr>tr_time = stamp 1 9 0, tr_kind = TOTAL_FEE, tr_price = 103, tr_size = 0, tr_profit = 0, tr_fee = 47000\<rparr>],
     last_date = 1, daily_fee = 0, last_valid_atr = 1, daily_atr = Some 1,
     current_pivot = 100,
     equity_series = [Some 500000000, Some 500000000, Some 500000000, Some 500000000, Some 499953000],
     grid_size = Some (147 / 100), size_lvl = 1, capital_np = True\<rparr>"

section \<open>More concrete inputs\<close>


text \<open>The metrics of the run \<open>prices_carry\<close>.\<close>

definition carry_metrics :: metrics where
  "carry_metrics =
     \<lparr>hpr = Some (- (1 / 100)), turnover_ratio = Some (200000 / 9999949),
      final_capital = 499950000,
      equity_curve = [(stamp 0 9 0, 500000000), (stamp 1 9 1, 500000000),
                      (stamp 1 9 2, 499950000)]\<rparr>"

text \<open>The metrics of the run \<open>prices_two_day\<close>.\<close>

definition two_day_metrics :: metrics where
  "two_day_metrics =
     \<lparr>hpr = Some (- (47 / 5000)), turnover_ratio = Some (10000 / 499953),
      final_capital = 499953000,
      equity_curve = [(stamp 0 9 0, 500000000), (stamp 0 9 1, 500000000),
                      (stamp 1 8 45, 500000000), (stamp 1 8 50, 500000000),
                      (stamp 1 9 0, 499953000)]\<rparr>"

section \<open>A run without capital\<close>

text \<open>The default configuration with no capital, and a flat series over one day.\<close>

definition zero_config :: config where
  "zero_config =
     \<lparr>init_capital = 0, contract_value = 100000, fee_per_trade = 0.47,
      grid_size_factor = 1.47, minimum_grid_size = 0.4, move_pivot = 6, max_loss = 20,
      take_profit_factor = 1\<rparr>"

definition prices_flat :: "(timestamp \<times> real) list" where
  "prices_flat = [(stamp 0 9 0, 100), (stamp 1 9 0, 100)]"

section \<open>Properties of the volatility estimator\<close>

lemma dropna_map_Some: "dropna (map Some xs) = xs"
  by (induction xs) auto

lemma dropna_drop_map_Some: "dropna (drop k (map Some xs)) = drop k xs"
  by (simp only: drop_map dropna_map_Some)

lemma diff_abs_changes:
  "prices \<noteq> [] \<Longrightarrow> diff_abs prices = None # map Some (abs_changes prices)"
  by (cases prices) (simp_all add: abs_changes_def case_prod_unfold comp_def)

lemma dropna_tail_diff_abs:
  "dropna (tail window (diff_abs prices)) =
     drop (length (abs_changes prices) - window) (abs_changes prices)"
proof (cases prices)
  case Nil
  then show ?thesis by (simp add: tail_def abs_changes_def)
next
  case (Cons p ps)
  have d: "diff_abs prices = None # map Some (abs_changes prices)"
    by (rule diff_abs_changes) (simp add: Cons)
  have len: "length (abs_changes prices) = length ps"
    using Cons by (simp add: abs_changes_def)
  show ?thesis
  proof (cases "window \<le> length ps")
    case True
    then have "tail window (diff_abs prices) =
        drop (length ps - window) (map Some (abs_changes prices))"
      using d len by (simp add: tail_def Suc_diff_le)
    then show ?thesis
      using len by (simp add: dropna_drop_map_Some)
  next
    case False
    then have "tail window (diff_abs prices) = None # map Some (abs_changes prices)"
      using d len by (simp add: tail_def)
    then show ?thesis
      using False len by (simp add: dropna_map_Some)
  qed
qed

text \<open>
  Claim C6 (as amended): window-mode ATR is the mean of the last \<open>window\<close> absolute
  tick-to-tick changes (all of them when fewer exist) and falls back to
  \<open>last_valid_atr\<close> exactly when there is no such change at all or fewer than
  \<open>window div 2\<close> (the floor of half the window, not the ceiling) of them.
\<close>

theorem calculate_atr_window_floor:
  "calculate_atr prices window lva =
     (let v = drop (length (abs_changes prices) - window) (abs_changes prices)
      in if v = [] \<or> length v < window div 2 then lva
         else sum_list v / real (length v))"
proof -
  define v where "v = drop (length (abs_changes prices) - window) (abs_changes prices)"
  have "calculate_atr prices window lva =
      (if v = [] \<or> length v < window div 2 then lva else sum_list v / real (length v))"
    unfolding calculate_atr_def Let_def dropna_tail_diff_abs v_def [symmetric]
    by (simp add: mean_def not_le)
  then show ?thesis
    unfolding v_def Let_def .
qed

text \<open>
  Claim C6 as stated fails for an odd window: with two ticks and window 3 there is one
  valid difference, fewer than the ceiling of 3/2, and yet the mean is returned.
\<close>

theorem calculate_atr_ceiling_counterexample:
  "length (dropna (tail 3 (diff_abs [1, 2]))) < (3 + 1) div 2
   \<and> calculate_atr [1, 2] 3 5 = 1 \<and> calculate_atr [1, 2] 3 5 \<noteq> 5"
  by (simp add: calculate_atr_def tail_def mean_def)

section \<open>The evaluated part of a tick in one piece\<close>

lemma evaluate_tick_unfold:
  "evaluate_tick cfg prices i current_atr st =
     (let current_price = snd (prices ! i);
          t = fst (prices ! i);
          st1 = init_grid cfg prices i current_atr st;
          st2 = (if pivot_breached cfg current_price st1
                 then rebase_pivot cfg prices i st1 else st1);
          take_profit = take_profit_factor cfg * the (grid_size st2) * contract_value cfg
      in case exit_positions cfg prices i take_profit (positions st2) st2 of
           (st3, forced_close_triggered) \<Rightarrow>
             let st4 = open_entries cfg current_price t forced_close_triggered st3;
                 st5 = mark_equity i (current_equity cfg current_price st4) st4
             in if capital st5 < 0 then Insolvent st5
                else if i = length prices - 1 \<and> positions st5 \<noteq> [] then
                  let st6 = fst (close_all_positions cfg current_price t st5)
                  in Next (mark_equity i (capital st6) st6)
                else Next st5)"
  by (simp add: evaluate_tick_def exit_phase_def entry_phase_def Let_def)

section \<open>Force-close-all: the result in closed form\<close>

lemma fold_remove1_all: "mset ps = mset qs \<Longrightarrow> fold remove1 ps qs = []"
proof (induction ps arbitrary: qs)
  case Nil
  then show ?case by simp
next
  case (Cons p ps)
  then have "mset ps = mset (remove1 p qs)"
    by (metis add_mset_remove_trivial mset.simps(2) mset_remove1)
  then show ?case
    using Cons.IH by simp
qed

lemma close_positions_result:
  "close_positions cfg p t ps (st, a, b) =
     (st\<lparr>capital := capital st + sum_list (map (close_profit cfg p) ps),
         capital_np := (capital_np st \<or> ps \<noteq> []),
         positions := fold remove1 ps (positions st),
         trade_history := trade_history st @ map (close_record cfg p t) ps\<rparr>,
      a + sum_list (map (close_profit cfg p) ps),
      b + real (length ps) * (fee_per_trade cfg * contract_value cfg))"
proof (induction ps arbitrary: st a b)
  case Nil
  then show ?case by simp
next
  case (Cons pos ps)
  obtain sd e z where pos: "pos = (sd, e, z)"
    by (cases pos) auto
  show ?case
    unfolding pos
    by (simp add: Cons.IH Let_def close_profit_def close_record_def algebra_simps)
qed

lemma close_all_positions_result:
  "close_all_positions cfg p t st =
     (st\<lparr>capital := capital st + sum_list (map (close_profit cfg p) (positions st)),
         capital_np := (capital_np st \<or> positions st \<noteq> []),
         positions := [],
         trade_history := trade_history st @ map (close_record cfg p t) (positions st) @
           (if real (length (positions st)) * (fee_per_trade cfg * contract_value cfg) > 0
            then [\<lparr>tr_time = t, tr_kind = TOTAL_FEE, tr_price = p, tr_size = 0,
                   tr_profit = 0,
                   tr_fee = real (length (positions st)) * (fee_per_trade cfg * contract_value cfg)\<rparr>]
            else [])\<rparr>,
      sum_list (map (close_profit cfg p) (positions st)))"
  by (simp add: close_all_positions_def close_positions_result fold_remove1_all)

section \<open>The ledger caps\<close>

lemma count_side_remove1:
  "count_side sd (remove1 x ps) =
     (if x \<in> set ps \<and> fst x = sd then count_side sd ps - 1 else count_side sd ps)"
  by (simp add: count_side_def filter_remove1 length_remove1)

lemma count_side_remove1_le: "count_side sd (remove1 x ps) \<le> count_side sd ps"
  by (simp add: count_side_remove1)

lemma count_side_append [simp]:
  "count_side sd (ps @ qs) = count_side sd ps + count_side sd qs"
  by (simp add: count_side_def)

lemma count_side_Nil [simp]: "count_side sd [] = 0"
  by (simp add: count_side_def)

lemma count_side_Cons [simp]:
  "count_side sd (q # ps) = (if fst q = sd then Suc (count_side sd ps) else count_side sd ps)"
  by (simp add: count_side_def)

lemma count_side_total: "length ps = count_side BUY ps + count_side SELL ps"
proof (induction ps)
  case Nil
  then show ?case by (simp add: count_side_def)
next
  case (Cons p ps)
  then show ?case by (cases "fst p") (simp_all add: count_side_def)
qed

lemma ledger_ok_iff:
  "ledger_ok st \<longleftrightarrow> count_side BUY (positions st) \<le> 6 \<and> count_side SELL (positions st) \<le> 6"
  using count_side_total [of "positions st"] by (auto simp: ledger_ok_def max_positions_def)

lemma calculate_grid_state:
  "snd (snd (calculate_grid cfg st p a prices i)) =
     (case a of None \<Rightarrow> st | Some x \<Rightarrow> st\<lparr>last_valid_atr := x\<rparr>)"
  by (simp add: calculate_grid_def Let_def)

lemma rebase_pivot_result:
  "rebase_pivot cfg prices i st =
     (fst (close_all_positions cfg (snd (prices ! i)) (fst (prices ! i)) st))
       \<lparr>current_pivot := snd (prices ! i),
        last_valid_atr := calculate_atr (map snd (take (i + 1) prices)) short_atr_window (last_valid_atr st),
        grid_size := Some (fst (calculate_grid cfg
           ((fst (close_all_positions cfg (snd (prices ! i)) (fst (prices ! i)) st))\<lparr>current_pivot := snd (prices ! i)\<rparr>)
           (snd (prices ! i))
           (Some (calculate_atr (map snd (take (i + 1) prices)) short_atr_window (last_valid_atr st)))
           prices i)),
        size_lvl := 1\<rparr>"
  by (simp add: rebase_pivot_def Let_def close_all_positions_result calculate_grid_def max_contracts_def)

lemma rebase_pivot_positions [simp]: "positions (rebase_pivot cfg prices i st) = []"
  by (simp add: rebase_pivot_result close_all_positions_result)

lemma rebase_pivot_pivot [simp]: "current_pivot (rebase_pivot cfg prices i st) = snd (prices ! i)"
  by (simp add: rebase_pivot_result)

lemma exit_positions_count:
  "count_side sd (positions (fst (exit_positions cfg prices i tp ps st))) \<le> count_side sd (positions st)"
proof (induction ps arbitrary: st)
  case Nil
  then show ?case by simp
next
  case (Cons pos ps)
  let ?st' = "st\<lparr>capital := capital st +
        (unrealized_profit cfg (snd (prices ! i)) pos - fee_per_trade cfg * contract_value cfg),
      capital_np := True,
      positions := remove1 pos (positions st),
      trade_history := trade_history st @
        [\<lparr>tr_time = fst (prices ! i), tr_kind = TAKE_PROFIT (fst pos),
          tr_price = snd (prices ! i), tr_size = snd (snd pos),
          tr_profit = unrealized_profit cfg (snd (prices ! i)) pos
                        - fee_per_trade cfg * contract_value cfg,
          tr_fee = fee_per_trade cfg * contract_value cfg\<rparr>]\<rparr>"
  have "count_side sd (positions (fst (exit_positions cfg prices i tp ps ?st')))
          \<le> count_side sd (positions ?st')"
    by (rule Cons.IH)
  also have "\<dots> \<le> count_side sd (positions st)"
    by (simp add: count_side_remove1_le)
  finally have tp_case: "count_side sd (positions (fst (exit_positions cfg prices i tp ps ?st')))
          \<le> count_side sd (positions st)" .
  show ?case
    using tp_case Cons.IH [of st] by (simp add: Let_def)
qed

lemma filter_hd_mem:
  "filter P xs = y # ys \<Longrightarrow> y \<in> set xs \<and> P y"
proof -
  assume "filter P xs = y # ys"
  then have "y \<in> set (filter P xs)" by simp
  then show ?thesis by simp
qed

lemma try_buy_counters: "counters_ok acc \<Longrightarrow> counters_ok (snd (try_buy cfg p t g sz n acc))"
proof -
  assume ok: "counters_ok acc"
  obtain nb ns st where acc: "acc = (nb, ns, st)"
    by (cases acc) auto
  let ?ps = "positions st @ [(BUY, p, sz)]"
  show ?thesis
  proof (cases "filter (\<lambda>q. fst q = SELL) ?ps")
    case Nil
    then show ?thesis
      using ok by (auto simp: acc try_buy_def counters_ok_def Let_def max_buys_def count_side_def)
  next
    case (Cons sp rest)
    then have sp: "sp \<in> set ?ps" "fst sp = SELL"
      using filter_hd_mem [OF Cons] by auto
    then have sp': "sp \<in> set (positions st)" by auto
    have b: "(BUY, p, sz) \<in> set (remove1 sp ?ps)"
    proof -
      have "(BUY, p, sz) \<noteq> sp" using sp(2) by auto
      then show ?thesis by (simp add: in_set_remove1)
    qed
    have r1: "count_side BUY (remove1 sp ?ps) = count_side BUY (positions st) + 1"
      using sp by (simp add: count_side_remove1)
    have r2: "count_side SELL (remove1 sp ?ps) = count_side SELL (positions st) - 1"
      using sp by (simp add: count_side_remove1)
    have c1: "count_side BUY (remove1 (BUY, p, sz) (remove1 sp ?ps)) = count_side BUY (positions st)"
      using b by (simp add: count_side_remove1 [of BUY "(BUY, p, sz)"] r1)
    have c2: "count_side SELL (remove1 (BUY, p, sz) (remove1 sp ?ps)) = count_side SELL (positions st) - 1"
      by (simp add: count_side_remove1 [of SELL "(BUY, p, sz)"] r2)
    have pos: "count_side SELL (positions st) > 0"
      using sp' sp(2) by (auto simp: count_side_def filter_empty_conv)
    show ?thesis
      using ok Cons c1 c2 pos
      by (auto simp: acc try_buy_def counters_ok_def Let_def max_buys_def)
  qed
qed

lemma try_sell_counters: "counters_ok acc \<Longrightarrow> counters_ok (try_sell cfg p t g sz n acc)"
proof -
  assume ok: "counters_ok acc"
  obtain nb ns st where acc: "acc = (nb, ns, st)"
    by (cases acc) auto
  let ?ps = "positions st @ [(SELL, p, sz)]"
  show ?thesis
  proof (cases "filter (\<lambda>q. fst q = BUY) ?ps")
    case Nil
    then show ?thesis
      using ok by (auto simp: acc try_sell_def counters_ok_def Let_def max_sells_def)
  next
    case (Cons bp rest)
    then have bp: "bp \<in> set ?ps" "fst bp = BUY"
      using filter_hd_mem [OF Cons] by auto
    then have bp': "bp \<in> set (positions st)" by auto
    have b: "(SELL, p, sz) \<in> set (remove1 bp ?ps)"
    proof -
      have "(SELL, p, sz) \<noteq> bp" using bp(2) by auto
      then show ?thesis by (simp add: in_set_remove1)
    qed
    have r1: "count_side SELL (remove1 bp ?ps) = count_side SELL (positions st) + 1"
      using bp by (simp add: count_side_remove1)
    have r2: "count_side BUY (remove1 bp ?ps) = count_side BUY (positions st) - 1"
      using bp by (simp add: count_side_remove1)
    have c1: "count_side SELL (remove1 (SELL, p, sz) (remove1 bp ?ps)) = count_side SELL (positions st)"
      using b by (simp add: count_side_remove1 [of SELL "(SELL, p, sz)"] r1)
    have c2: "count_side BUY (remove1 (SELL, p, sz) (remove1 bp ?ps)) = count_side BUY (positions st) - 1"
      by (simp add: count_side_remove1 [of BUY "(SELL, p, sz)"] r2)
    have pos: "count_side BUY (positions st) > 0"
      using bp' bp(2) by (auto simp: count_side_def filter_empty_conv)
    show ?thesis
      using ok Cons c1 c2 pos
      by (auto simp: acc try_sell_def counters_ok_def Let_def max_sells_def)
  qed
qed

lemma grid_levels_counters:
  "counters_ok acc \<Longrightarrow> ledger_ok (grid_levels cfg p t g sz ns acc)"
proof (induction ns arbitrary: acc)
  case Nil
  then show ?case
    by (cases acc) (auto simp: counters_ok_def ledger_ok_iff)
next
  case (Cons n ns)
  obtain paired acc1 where tb: "try_buy cfg p t g sz n acc = (paired, acc1)"
    by (cases "try_buy cfg p t g sz n acc") auto
  have ok1: "counters_ok acc1"
    using try_buy_counters [OF Cons.prems, of cfg p t g sz n] tb by simp
  show ?case
    using Cons.IH [OF ok1] Cons.IH [OF try_sell_counters [OF ok1]] tb by simp
qed

lemma check_daily_fee_positions [simp]:
  "positions (snd (check_daily_fee t fee st)) = positions st"
  by (simp add: check_daily_fee_def Let_def)

lemma open_entries_ledger_ok:
  "ledger_ok st \<Longrightarrow> ledger_ok (open_entries cfg p t forced st)"
proof -
  assume ok: "ledger_ok st"
  obtain over st1 where c: "check_daily_fee t (Some 0) st = (over, st1)"
    by (cases "check_daily_fee t (Some 0) st") auto
  have p1: "positions st1 = positions st"
    using check_daily_fee_positions [of t "Some 0" st] c by simp
  have ok1: "ledger_ok st1"
    using ok p1 by (simp add: ledger_ok_def)
  have "counters_ok (int (length (filter (\<lambda>p. fst p = BUY) (positions st1))),
                     int (length (filter (\<lambda>p. fst p = SELL) (positions st1))), st1)"
    using ok1 by (simp add: counters_ok_def ledger_ok_iff count_side_def)
  then show ?thesis
    using ok ok1 c by (simp add: open_entries_def Let_def grid_levels_counters)
qed

lemma exit_positions_ledger_ok:
  "ledger_ok st \<Longrightarrow> ledger_ok (fst (exit_positions cfg prices i tp ps st))"
  using exit_positions_count [of BUY cfg prices i tp ps st]
        exit_positions_count [of SELL cfg prices i tp ps st]
  by (simp add: ledger_ok_iff)

lemma calculate_grid_positions [simp]:
  "positions (snd (snd (calculate_grid cfg st p a prices i))) = positions st"
  by (simp add: calculate_grid_state split: option.splits)

lemma init_grid_positions [simp]: "positions (init_grid cfg prices i a st) = positions st"
proof (cases "grid_size st")
  case None
  obtain g sz st1 where c: "calculate_grid cfg st (snd (prices ! i)) (Some a) prices i = (g, sz, st1)"
    by (cases "calculate_grid cfg st (snd (prices ! i)) (Some a) prices i") auto
  then have "positions st1 = positions st"
    using calculate_grid_positions [of cfg st "snd (prices ! i)" "Some a" prices i] by simp
  then show ?thesis
    using None c by (simp add: init_grid_def)
next
  case (Some g)
  then show ?thesis by (simp add: init_grid_def)
qed

lemma mark_equity_positions [simp]: "positions (mark_equity i v st) = positions st"
  by (simp add: mark_equity_def)

lemma close_all_positions_empty [simp]:
  "positions (fst (close_all_positions cfg p t st)) = []"
  by (simp add: close_all_positions_result)

lemma ledger_ok_empty: "positions st = [] \<Longrightarrow> ledger_ok st"
  by (simp add: ledger_ok_def)

lemma ledger_ok_cong: "positions st' = positions st \<Longrightarrow> ledger_ok st' = ledger_ok st"
  by (simp add: ledger_ok_def)

lemma evaluate_tick_ledger_ok:
  "ledger_ok st \<Longrightarrow> ledger_ok (state_of (evaluate_tick cfg prices i a st))"
proof -
  assume ok: "ledger_ok st"
  define st1 where "st1 = init_grid cfg prices i a st"
  define st2 where "st2 = (if pivot_breached cfg (snd (prices ! i)) st1
                           then rebase_pivot cfg prices i st1 else st1)"
  define tp where "tp = take_profit_factor cfg * the (grid_size st2) * contract_value cfg"
  obtain st3 forced where e: "exit_positions cfg prices i tp (positions st2) st2 = (st3, forced)"
    by (cases "exit_positions cfg prices i tp (positions st2) st2") auto
  have ok1: "ledger_ok st1"
    using ok by (simp add: st1_def ledger_ok_cong [of "init_grid cfg prices i a st" st])
  have ok2: "ledger_ok st2"
    using ok1 by (simp add: st2_def ledger_ok_empty)
  have ok3: "ledger_ok st3"
    using exit_positions_ledger_ok [OF ok2, of cfg prices i tp "positions st2"] e by simp
  have ok4: "ledger_ok (open_entries cfg (snd (prices ! i)) (fst (prices ! i)) forced st3)"
    using ok3 by (rule open_entries_ledger_ok)
  show ?thesis
    unfolding evaluate_tick_unfold Let_def st1_def [symmetric] st2_def [symmetric] tp_def [symmetric] e
    using ok4 by (simp add: ledger_ok_empty ledger_ok_cong [of "mark_equity _ _ _"])
qed

lemma overnight_step_positions [simp]: "positions (overnight_step t st) = positions st"
  by (simp add: overnight_step_def apply_overnight_fee_def Let_def)

lemma daily_atr_step_positions [simp]: "positions (daily_atr_step prices t st) = positions st"
  by (simp add: daily_atr_step_def Let_def)

lemma tick_ledger_ok: "ledger_ok st \<Longrightarrow> ledger_ok (state_of (tick cfg prices i st))"
proof -
  assume ok: "ledger_ok st"
  define st2 where "st2 = daily_atr_step prices (fst (prices ! i)) (overnight_step (fst (prices ! i)) st)"
  have ok2: "ledger_ok st2"
    using ok by (simp add: st2_def ledger_ok_cong [of "daily_atr_step _ _ _" st])
  show ?thesis
    unfolding tick_def Let_def st2_def [symmetric]
    using ok2 evaluate_tick_ledger_ok [OF ok2]
    by (simp add: ledger_ok_empty ledger_ok_cong [of "mark_equity _ _ _"])
qed

lemma run_ticks_ledger_ok:
  "ledger_ok st \<Longrightarrow> ledger_ok (state_of (run_ticks cfg prices idx st))"
proof (induction idx arbitrary: st)
  case Nil
  then show ?case by simp
next
  case (Cons i idx)
  show ?case
  proof (cases "tick cfg prices i st")
    case (Next s)
    then have "ledger_ok s"
      using tick_ledger_ok [OF Cons.prems, of cfg prices i] by simp
    then show ?thesis
      using Next Cons.IH by simp
  next
    case (Insolvent s)
    then show ?thesis
      using tick_ledger_ok [OF Cons.prems, of cfg prices i] by simp
  qed
qed

lemma start_state_ledger_ok: "ledger_ok (start_state cfg prices)"
  by (simp add: start_state_def ledger_ok_def)

text \<open>
  Claim C2: after every tick of a run, that is for the loop run over any initial part
  \<open>1, \<dots>, k - 1\<close> of its indices (and also where it stops on insolvency), the ledger
  holds at most \<open>max_positions = 12\<close> positions, at most 6 of them BUY and at most 6 SELL.
\<close>

theorem ledger_caps_hold:
  "ledger_ok (state_of (run_ticks cfg prices [1..<k] (start_state cfg prices)))"
  by (rule run_ticks_ledger_ok [OF start_state_ledger_ok])

section \<open>Concrete runs, tick by tick\<close>

lemmas clock_defs = stamp_def combine_def time_hm_def date_of_def time_of_day_def day_us_def
  is_trading_time_def is_end_of_day_def

lemmas engine_defs = tick_def current_atr_of_def overnight_step_def apply_overnight_fee_def daily_atr_step_def
  evaluate_tick_def exit_phase_def entry_phase_def init_grid_def calculate_grid_def
  pivot_breached_def rebase_pivot_def
  close_all_positions_def open_entries_def check_daily_fee_def try_buy_def try_sell_def
  in_band_def round1_def mark_equity_def current_equity_def unrealized_profit_def
  unrealized_loss_def max_loss_per_trade_def calculate_atr_def tail_def mean_def
  max_contracts_def max_positions_def daily_fee_limit_def short_atr_window_def
  max_buys_def max_sells_def

lemma start_carry: "start_state default_config prices_carry = carry_0"
  by (simp add: start_state_def default_config_def prices_carry_def carry_0_def clock_defs)

lemma tick_carry_1: "tick default_config prices_carry 1 carry_0 = Next carry_1"
  by (simp add: engine_defs clock_defs default_config_def prices_carry_def carry_0_def carry_1_def upt_rec)

lemma tick_carry_2: "tick default_config prices_carry 2 carry_1 = Next carry_2"
  by (simp add: engine_defs clock_defs default_config_def prices_carry_def carry_1_def carry_2_def upt_rec)

lemma tick_carry_3: "tick default_config prices_carry 3 carry_2 = Next carry_3"
  by (simp add: engine_defs clock_defs default_config_def prices_carry_def carry_2_def carry_3_def upt_rec)

lemma indices_carry: "[1..<length prices_carry] = [1, 2, 3]"
  by (simp add: prices_carry_def upt_rec)

lemma run_carry: "run_loop default_config prices_carry = Next carry_3"
  unfolding run_loop_def indices_carry start_carry
  by (simp only: run_ticks.simps tick_result.simps tick_carry_1 tick_carry_2 tick_carry_3)

lemma start_stop: "start_state tight_config prices_stop = stop_0"
  by (simp add: start_state_def tight_config_def prices_stop_def stop_0_def clock_defs)

lemma tick_stop_1: "tick tight_config prices_stop 1 stop_0 = Next stop_1"
  by (simp add: engine_defs clock_defs tight_config_def prices_stop_def stop_0_def stop_1_def upt_rec)

lemma tick_stop_2: "tick tight_config prices_stop 2 stop_1 = Next stop_2"
  by (simp add: engine_defs clock_defs tight_config_def prices_stop_def stop_1_def stop_2_def upt_rec)

lemma indices_stop: "[1..<length prices_stop] = [1, 2]"
  by (simp add: prices_stop_def upt_rec)

lemma run_stop: "run_loop tight_config prices_stop = Next stop_2"
  unfolding run_loop_def indices_stop start_stop
  by (simp only: run_ticks.simps tick_result.simps tick_stop_1 tick_stop_2)

lemma start_two_day: "start_state default_config prices_two_day = two_day_0"
  by (simp add: start_state_def default_config_def prices_two_day_def two_day_0_def clock_defs)

lemma tick_two_day_1: "tick default_config prices_two_day 1 two_day_0 = Next two_day_1"
  by (simp add: engine_defs clock_defs default_config_def prices_two_day_def two_day_0_def two_day_1_def upt_rec)

lemma tick_two_day_2: "tick default_config prices_two_day 2 two_day_1 = Next two_day_2"
  by (simp add: engine_defs clock_defs default_config_def prices_two_day_def two_day_1_def two_day_2_def upt_rec)

lemma tick_two_day_3: "tick default_config prices_two_day 3 two_day_2 = Next two_day_3"
  by (simp add: engine_defs clock_defs default_config_def prices_two_day_def two_day_2_def two_day_3_def upt_rec)

lemma tick_two_day_4: "tick default_config prices_two_day 4 two_day_3 = Next two_day_4"
  by (simp add: engine_defs clock_defs default_config_def prices_two_day_def two_day_3_def two_day_4_def upt_rec)

lemma indices_two_day: "[1..<length prices_two_day] = [1, 2, 3, 4]"
  by (simp add: prices_two_day_def upt_rec)

lemma run_two_day: "run_loop default_config prices_two_day = Next two_day_4"
  unfolding run_loop_def indices_two_day start_two_day
  by (simp only: run_ticks.simps tick_result.simps tick_two_day_1 tick_two_day_2 tick_two_day_3 tick_two_day_4)

section \<open>What each operation leaves untouched\<close>

text \<open>
  The entry phase writes only the capital, the ledger, the trade lists and (through
  \<open>check_daily_fee\<close>) the fee accumulator and date; a field \<open>f\<close> that \<open>try_buy\<close> and
  \<open>try_sell\<close> do not touch is not touched by the level loop.
\<close>

lemma grid_levels_frame:
  assumes "\<And>n acc. f (snd (snd (snd (try_buy cfg p t g sz n acc)))) = f (snd (snd acc))"
    and "\<And>n acc. f (snd (snd (try_sell cfg p t g sz n acc))) = f (snd (snd acc))"
  shows "f (grid_levels cfg p t g sz ns acc) = f (snd (snd acc))"
proof (induction ns arbitrary: acc)
  case Nil
  then show ?case by simp
next
  case (Cons n ns)
  obtain paired acc1 where tb: "try_buy cfg p t g sz n acc = (paired, acc1)"
    by (cases "try_buy cfg p t g sz n acc") auto
  have a1: "f (snd (snd acc1)) = f (snd (snd acc))"
    using assms(1) [of n acc] tb by simp
  show ?case
    using Cons.IH [of acc1] Cons.IH [of "try_sell cfg p t g sz n acc1"] assms(2) [of n acc1] a1 tb
    by simp
qed

lemma try_buy_pivot [simp]:
  "current_pivot (snd (snd (snd (try_buy cfg p t g sz n acc)))) = current_pivot (snd (snd acc))"
  by (cases acc) (simp add: try_buy_def Let_def split: list.splits)

lemma try_sell_pivot [simp]:
  "current_pivot (snd (snd (try_sell cfg p t g sz n acc))) = current_pivot (snd (snd acc))"
  by (cases acc) (simp add: try_sell_def Let_def split: list.splits)

lemma try_buy_equity [simp]:
  "equity_series (snd (snd (snd (try_buy cfg p t g sz n acc)))) = equity_series (snd (snd acc))"
  by (cases acc) (simp add: try_buy_def Let_def split: list.splits)

lemma try_sell_equity [simp]:
  "equity_series (snd (snd (try_sell cfg p t g sz n acc))) = equity_series (snd (snd acc))"
  by (cases acc) (simp add: try_sell_def Let_def split: list.splits)

lemma open_entries_pivot [simp]:
  "current_pivot (open_entries cfg p t forced st) = current_pivot st"
  by (simp add: open_entries_def check_daily_fee_def Let_def
      grid_levels_frame [where f = current_pivot])

lemma open_entries_equity [simp]:
  "equity_series (open_entries cfg p t forced st) = equity_series st"
  by (simp add: open_entries_def check_daily_fee_def Let_def
      grid_levels_frame [where f = equity_series])

lemma init_grid_result:
  "init_grid cfg prices i a st =
     (case grid_size st of
        None \<Rightarrow> st\<lparr>last_valid_atr := a,
                   grid_size := Some (fst (calculate_grid cfg st (snd (prices ! i)) (Some a) prices i)),
                   size_lvl := fst (snd (calculate_grid cfg st (snd (prices ! i)) (Some a) prices i))\<rparr>
      | Some g \<Rightarrow> st)"
  by (simp add: init_grid_def calculate_grid_def Let_def split: option.splits)

lemma init_grid_pivot [simp]: "current_pivot (init_grid cfg prices i a st) = current_pivot st"
  by (simp add: init_grid_result split: option.splits)

lemma init_grid_equity [simp]: "equity_series (init_grid cfg prices i a st) = equity_series st"
  by (simp add: init_grid_result split: option.splits)

lemma overnight_step_pivot [simp]: "current_pivot (overnight_step t st) = current_pivot st"
  by (simp add: overnight_step_def apply_overnight_fee_def Let_def)

lemma overnight_step_equity [simp]: "equity_series (overnight_step t st) = equity_series st"
  by (simp add: overnight_step_def apply_overnight_fee_def Let_def)

lemma daily_atr_step_pivot [simp]: "current_pivot (daily_atr_step prices t st) = current_pivot st"
  by (simp add: daily_atr_step_def Let_def)

lemma daily_atr_step_equity [simp]: "equity_series (daily_atr_step prices t st) = equity_series st"
  by (simp add: daily_atr_step_def Let_def)

lemma close_all_positions_pivot [simp]:
  "current_pivot (fst (close_all_positions cfg p t st)) = current_pivot st"
  by (simp add: close_all_positions_result)

lemma close_all_positions_equity [simp]:
  "equity_series (fst (close_all_positions cfg p t st)) = equity_series st"
  by (simp add: close_all_positions_result)

lemma rebase_pivot_equity [simp]:
  "equity_series (rebase_pivot cfg prices i st) = equity_series st"
  by (simp add: rebase_pivot_result)

lemma mark_equity_pivot [simp]: "current_pivot (mark_equity i v st) = current_pivot st"
  by (simp add: mark_equity_def)

lemma exit_positions_equity [simp]:
  "equity_series (fst (exit_positions cfg prices i tp ps st)) = equity_series st"
  by (induction ps arbitrary: st) (simp_all add: Let_def)

section \<open>Pivot moves\<close>

lemma exit_positions_forced:
  "snd (exit_positions cfg prices i tp ps st) = max_loss_hit cfg (snd (prices ! i)) tp ps"
  by (induction ps arbitrary: st) (auto simp: Let_def max_loss_hit_def)

lemma exit_positions_pivot:
  "current_pivot (fst (exit_positions cfg prices i tp ps st)) =
     (if max_loss_hit cfg (snd (prices ! i)) tp ps then snd (prices ! i) else current_pivot st)"
  by (induction ps arbitrary: st) (auto simp: Let_def max_loss_hit_def)

lemma exit_positions_forced_empty:
  "max_loss_hit cfg (snd (prices ! i)) tp ps \<Longrightarrow>
     positions (fst (exit_positions cfg prices i tp ps st)) = []"
  by (induction ps arbitrary: st) (auto simp: Let_def max_loss_hit_def)

lemma exit_positions_Nil_state: "exit_positions cfg prices i tp [] st = (st, False)"
  by simp

lemma evaluate_tick_pivot:
  "current_pivot (state_of (evaluate_tick cfg prices i a st)) =
     (let st1 = init_grid cfg prices i a st;
          current_price = snd (prices ! i);
          g = the (grid_size st1)
      in if current_price < current_pivot st1 - move_pivot cfg * g
            \<or> current_price > current_pivot st1 + move_pivot cfg * g
            \<or> max_loss_hit cfg current_price (take_profit_factor cfg * g * contract_value cfg)
                 (positions st1)
         then current_price else current_pivot st)"
proof -
  define st1 where "st1 = init_grid cfg prices i a st"
  define st2 where "st2 = (if pivot_breached cfg (snd (prices ! i)) st1
                           then rebase_pivot cfg prices i st1 else st1)"
  define tp where "tp = take_profit_factor cfg * the (grid_size st2) * contract_value cfg"
  obtain st3 forced where e: "exit_positions cfg prices i tp (positions st2) st2 = (st3, forced)"
    by (cases "exit_positions cfg prices i tp (positions st2) st2") auto
  have p3: "current_pivot st3 =
      (if max_loss_hit cfg (snd (prices ! i)) tp (positions st2) then snd (prices ! i)
       else current_pivot st2)"
    using exit_positions_pivot [of cfg prices i tp "positions st2" st2] e by simp
  have res: "current_pivot (state_of (evaluate_tick cfg prices i a st)) = current_pivot st3"
    unfolding evaluate_tick_unfold Let_def st1_def [symmetric] st2_def [symmetric] tp_def [symmetric] e
    by simp
  have p1: "current_pivot st1 = current_pivot st"
    by (simp add: st1_def)
  show ?thesis
  proof (cases "pivot_breached cfg (snd (prices ! i)) st1")
    case True
    then have "current_pivot st3 = snd (prices ! i)"
      using p3 by (simp add: st2_def)
    then show ?thesis
      using True res
      unfolding Let_def st1_def [symmetric] pivot_breached_def by auto
  next
    case False
    then have s2: "st2 = st1" by (simp add: st2_def)
    show ?thesis
      using False res p3 p1
      unfolding Let_def st1_def [symmetric] pivot_breached_def tp_def s2 by auto
  qed
qed

lemma session_before_close:
  "is_trading_time t \<Longrightarrow> \<not> is_end_of_day t \<Longrightarrow> \<not> time_of_day t \<ge> time_hm 14 29"
  by (auto simp: is_trading_time_def is_end_of_day_def time_hm_def)

lemma tick_pivot:
  "current_pivot (state_of (tick cfg prices i st)) =
     (if pivot_moved cfg prices i st then snd (prices ! i) else current_pivot st)"
proof -
  define t where "t = fst (prices ! i)"
  define st2 where "st2 = daily_atr_step prices t (overnight_step t st)"
  have p2: "current_pivot st2 = current_pivot st"
    by (simp add: st2_def)
  show ?thesis
  proof (cases "is_trading_time t \<and> \<not> is_end_of_day t")
    case True
    then have late: "\<not> time_of_day t \<ge> time_hm 14 29"
      using session_before_close by blast
    have "tick cfg prices i st = evaluate_tick cfg prices i (current_atr_of t st2) st2"
      unfolding tick_def Let_def t_def [symmetric] st2_def [symmetric]
      using True late by simp
    then show ?thesis
      using True p2 evaluate_tick_pivot [of cfg prices i "current_atr_of t st2" st2]
      unfolding pivot_moved_def at_breach_check_def Let_def t_def [symmetric] st2_def [symmetric]
      by simp
  next
    case False
    have nm: "\<not> pivot_moved cfg prices i st"
      using False unfolding pivot_moved_def Let_def t_def [symmetric] by blast
    have "current_pivot (state_of (tick cfg prices i st)) = current_pivot st2"
      unfolding tick_def Let_def t_def [symmetric] st2_def [symmetric]
      using False by auto
    then show ?thesis
      using nm p2 by simp
  qed
qed

text \<open>
  Claim C3 as stated fails: in the run \<open>prices_stop\<close> the third tick (price 93) is inside
  the band \<open>100 \<plusminus> 6 * 1.47\<close>, and the pivot is moved from 100 to 93 all the same, by the
  max-loss branch.
\<close>

theorem pivot_rebase_without_breach_counterexample:
  "run_ticks tight_config prices_stop [1] (start_state tight_config prices_stop) = Next stop_1
   \<and> tick tight_config prices_stop 2 stop_1 = Next stop_2
   \<and> grid_size stop_1 = Some 1.47 \<and> current_pivot stop_1 = 100
   \<and> \<not> (snd (prices_stop ! 2) < current_pivot stop_1 - move_pivot tight_config * 1.47
         \<or> snd (prices_stop ! 2) > current_pivot stop_1 + move_pivot tight_config * 1.47)
   \<and> current_pivot stop_2 = 93"
proof -
  have a: "run_ticks tight_config prices_stop [1] (start_state tight_config prices_stop)
             = Next stop_1"
    by (simp only: start_stop run_ticks.simps tick_stop_1 tick_result.simps)
  have b: "grid_size stop_1 = Some 1.47 \<and> current_pivot stop_1 = 100
     \<and> \<not> (snd (prices_stop ! 2) < current_pivot stop_1 - move_pivot tight_config * 1.47
           \<or> snd (prices_stop ! 2) > current_pivot stop_1 + move_pivot tight_config * 1.47)
     \<and> current_pivot stop_2 = 93"
    by (simp add: stop_1_def stop_2_def prices_stop_def tight_config_def)
  show ?thesis
    using a b tick_stop_2 by blast
qed

section \<open>Claims settled on concrete runs\<close>

lemma backtest_carry: "backtest default_config prices_carry = Result carry_metrics"
proof -
  have ne: "prices_carry \<noteq> []"
    by (simp add: prices_carry_def)
  have "calculate_performance_metrics default_config prices_carry carry_3 = Result carry_metrics"
    by (simp add: calculate_performance_metrics_def prices_carry_def carry_3_def
        carry_metrics_def default_config_def clock_defs)
  then show ?thesis
    using ne by (simp add: backtest_def run_carry)
qed

theorem ledger_caps_hold_witness:
  "ledger_ok carry_3 \<and> positions carry_3 = [(BUY, 99, 1)]"
  using ledger_caps_hold [of default_config prices_carry "length prices_carry"] run_carry
  by (simp add: run_loop_def carry_3_def)

text \<open>
  Claim C4 fails on the run \<open>prices_two_day\<close>: the last tick is the first trading-time
  tick of day 1, whose 08:45 to 09:00 window holds two points with ATR 3, and the daily
  ATR is still the value 1 computed on day 0. \<open>daily_atr\<close> is never reset to \<open>None\<close>, so
  the daily ATR is computed once per run and not once per day.
\<close>

theorem daily_atr_computed_once_only:
  "run_loop default_config prices_two_day = Next two_day_4
   \<and> daily_atr two_day_4 = Some 1
   \<and> date_of (fst (prices_two_day ! 4)) = 1 \<and> is_trading_time (fst (prices_two_day ! 4))
   \<and> filter (\<lambda>q. fst q \<ge> combine 1 (time_hm 8 45) \<and> fst q < combine 1 (time_hm 9 0))
        prices_two_day = [(stamp 1 8 45, 100), (stamp 1 8 50, 103)]
   \<and> calculate_atr [100, 103] 2 1 = 3"
proof -
  have "daily_atr two_day_4 = Some 1
   \<and> date_of (fst (prices_two_day ! 4)) = 1 \<and> is_trading_time (fst (prices_two_day ! 4))
   \<and> filter (\<lambda>q. fst q \<ge> combine 1 (time_hm 8 45) \<and> fst q < combine 1 (time_hm 9 0))
        prices_two_day = [(stamp 1 8 45, 100), (stamp 1 8 50, 103)]
   \<and> calculate_atr [100, 103] 2 1 = 3"
    by (simp add: two_day_4_def prices_two_day_def clock_defs calculate_atr_def tail_def mean_def)
  then show ?thesis
    using run_two_day by blast
qed

text \<open>
  Claim C7 fails on the same run: on day 1 a position is closed and its fee of 47000 is
  paid and logged, and the daily fee accumulator is 0 when the run ends. The only call of
  \<open>check_daily_fee\<close> passes the fee 0, so nothing is ever added to the accumulator.
\<close>

theorem daily_fee_never_accumulates:
  "run_loop default_config prices_two_day = Next two_day_4
   \<and> last_date two_day_4 = 1
   \<and> map (\<lambda>r. (date_of (tr_time r), tr_fee r))
        (filter (\<lambda>r. tr_kind r = CLOSE SELL) (trade_history two_day_4)) = [(1, 47000)]
   \<and> daily_fee two_day_4 = 0"
proof -
  have "last_date two_day_4 = 1
   \<and> map (\<lambda>r. (date_of (tr_time r), tr_fee r))
        (filter (\<lambda>r. tr_kind r = CLOSE SELL) (trade_history two_day_4)) = [(1, 47000)]
   \<and> daily_fee two_day_4 = 0"
    by (simp add: two_day_4_def clock_defs)
  then show ?thesis
    using run_two_day by blast
qed

text \<open>
  Claim C8 fails on a series of one tick: the equity curve spans zero days and
  \<open>252 / days\<close> raises \<open>ZeroDivisionError\<close>, which nothing catches.
\<close>

theorem backtest_single_tick_raises:
  "backtest default_config [(stamp 0 9 0, 100)] = Raised ZeroDivisionError"
  by (simp add: backtest_def run_loop_def start_state_def calculate_performance_metrics_def
      default_config_def clock_defs)

section \<open>Force-close-all: the claim\<close>





section \<open>Turnover\<close>

lemma backtest_Result:
  "backtest cfg prices = Result m \<Longrightarrow>
     prices \<noteq> [] \<and> run_loop cfg prices = Next (state_of (run_loop cfg prices))
     \<and> calculate_performance_metrics cfg prices (state_of (run_loop cfg prices)) = Result m"
  by (cases "run_loop cfg prices") (auto simp: backtest_def split: if_splits)

text \<open>
  Claim C5 as stated fails on the run \<open>prices_carry\<close>: one contract was traded, which over
  the initial capital gives 1/50, and the reported ratio is 200000/9999949, the
  overnight fee having reduced the capital.
\<close>

theorem turnover_ratio_initial_capital_counterexample:
  "backtest default_config prices_carry = Result carry_metrics
   \<and> run_loop default_config prices_carry = Next carry_3
   \<and> sum_list (map (\<lambda>trade. \<bar>snd (snd (snd trade))\<bar>) (trades carry_3))
        * contract_value default_config / init_capital default_config * 100 = 1 / 50
   \<and> turnover_ratio carry_metrics = Some (200000 / 9999949)"
proof -
  have "sum_list (map (\<lambda>trade. \<bar>snd (snd (snd trade))\<bar>) (trades carry_3))
        * contract_value default_config / init_capital default_config * 100 = 1 / 50
   \<and> turnover_ratio carry_metrics = Some (200000 / 9999949)"
    by (simp add: carry_3_def default_config_def carry_metrics_def)
  then show ?thesis
    using backtest_carry run_carry by blast
qed

section \<open>The equity series\<close>

lemma mark_equity_series [simp]:
  "equity_series (mark_equity i v st) = (equity_series st)[i := Some v]"
  by (simp add: mark_equity_def)

lemma evaluate_tick_equity:
  "\<exists>v. equity_series (state_of (evaluate_tick cfg prices i a st)) = (equity_series st)[i := Some v]"
proof -
  define st1 where "st1 = init_grid cfg prices i a st"
  define st2 where "st2 = (if pivot_breached cfg (snd (prices ! i)) st1
                           then rebase_pivot cfg prices i st1 else st1)"
  define tp where "tp = take_profit_factor cfg * the (grid_size st2) * contract_value cfg"
  obtain st3 forced where e: "exit_positions cfg prices i tp (positions st2) st2 = (st3, forced)"
    by (cases "exit_positions cfg prices i tp (positions st2) st2") auto
  have "equity_series st2 = equity_series st"
    by (simp add: st2_def st1_def)
  moreover have "equity_series (fst (exit_positions cfg prices i tp (positions st2) st2))
      = equity_series st2"
    by (rule exit_positions_equity)
  ultimately have e3: "equity_series st3 = equity_series st"
    by (simp only: e fst_conv)
  show ?thesis
    unfolding evaluate_tick_unfold Let_def st1_def [symmetric] st2_def [symmetric] tp_def [symmetric] e
    using e3 by auto
qed

lemma tick_equity:
  "\<exists>v. equity_series (state_of (tick cfg prices i st)) =
         (if tick_skipped prices i st then equity_series st else (equity_series st)[i := Some v])"
proof -
  define t where "t = fst (prices ! i)"
  define st2 where "st2 = daily_atr_step prices t (overnight_step t st)"
  have e2: "equity_series st2 = equity_series st" and p2: "positions st2 = positions st"
    by (simp_all add: st2_def)
  consider
    (final) "date_of t = date_of (fst (last prices)) \<and> time_of_day t \<ge> time_hm 14 29
             \<and> positions st \<noteq> []"
  | (skip) "\<not> (date_of t = date_of (fst (last prices)) \<and> time_of_day t \<ge> time_hm 14 29)"
           "\<not> is_trading_time t" "\<not> is_end_of_day t" "positions st \<noteq> []"
  | (mark) "\<not> (date_of t = date_of (fst (last prices)) \<and> time_of_day t \<ge> time_hm 14 29
                \<and> positions st \<noteq> [])"
           "\<not> (\<not> is_trading_time t \<and> \<not> is_end_of_day t \<and> positions st \<noteq> [])"
           "\<not> is_trading_time t \<or> is_end_of_day t"
  | (eval) "is_trading_time t" "\<not> is_end_of_day t"
    by blast
  then show ?thesis
  proof cases
    case final
    then have "\<not> tick_skipped prices i st"
      unfolding tick_skipped_def Let_def t_def [symmetric] by blast
    moreover have "\<exists>v. equity_series (state_of (tick cfg prices i st)) = (equity_series st)[i := Some v]"
      unfolding tick_def Let_def t_def [symmetric] st2_def [symmetric]
      using final e2 p2 by fastforce
    ultimately show ?thesis by simp
  next
    case skip
    then have "tick_skipped prices i st"
      unfolding tick_skipped_def Let_def t_def [symmetric] by blast
    moreover have "equity_series (state_of (tick cfg prices i st)) = equity_series st"
      unfolding tick_def Let_def t_def [symmetric] st2_def [symmetric]
      using skip e2 p2 by auto
    ultimately show ?thesis by simp
  next
    case mark
    then have "\<not> tick_skipped prices i st"
      unfolding tick_skipped_def Let_def t_def [symmetric] by blast
    moreover have "\<exists>v. equity_series (state_of (tick cfg prices i st)) = (equity_series st)[i := Some v]"
      unfolding tick_def Let_def t_def [symmetric] st2_def [symmetric]
      using mark e2 p2 by auto
    ultimately show ?thesis by simp
  next
    case eval
    then have late: "\<not> time_of_day t \<ge> time_hm 14 29"
      using session_before_close by blast
    have ns: "\<not> tick_skipped prices i st"
      using eval unfolding tick_skipped_def Let_def t_def [symmetric] by blast
    have "tick cfg prices i st = evaluate_tick cfg prices i (current_atr_of t st2) st2"
      unfolding tick_def Let_def t_def [symmetric] st2_def [symmetric]
      using eval late by simp
    then have "\<exists>v. equity_series (state_of (tick cfg prices i st)) = (equity_series st)[i := Some v]"
      using evaluate_tick_equity [of cfg prices i "current_atr_of t st2" st2] e2 by simp
    then show ?thesis using ns by simp
  qed
qed

lemma tick_equity_length [simp]:
  "length (equity_series (state_of (tick cfg prices i st))) = length (equity_series st)"
  using tick_equity [of cfg prices i st] by (auto split: if_splits)

lemma tick_equity_other:
  "j \<noteq> i \<Longrightarrow> equity_series (state_of (tick cfg prices i st)) ! j = equity_series st ! j"
  using tick_equity [of cfg prices i st] by (auto split: if_splits)

lemma tick_equity_at:
  "i < length (equity_series st) \<Longrightarrow>
     equity_series (state_of (tick cfg prices i st)) ! i = None
       \<longleftrightarrow> tick_skipped prices i st \<and> equity_series st ! i = None"
proof -
  assume len: "i < length (equity_series st)"
  obtain v where v: "equity_series (state_of (tick cfg prices i st)) =
      (if tick_skipped prices i st then equity_series st else (equity_series st)[i := Some v])"
    using tick_equity [of cfg prices i st] by blast
  show ?thesis
  proof (cases "tick_skipped prices i st")
    case True
    then show ?thesis using v by simp
  next
    case False
    then have "equity_series (state_of (tick cfg prices i st)) ! i = Some v"
      using v len by simp
    then show ?thesis using False by simp
  qed
qed

lemma run_ticks_equity_length [simp]:
  "length (equity_series (state_of (run_ticks cfg prices idx st))) = length (equity_series st)"
proof (induction idx arbitrary: st)
  case Nil
  then show ?case by simp
next
  case (Cons i idx)
  show ?case
  proof (cases "tick cfg prices i st")
    case (Next s)
    then show ?thesis
      using Cons.IH [of s] tick_equity_length [of cfg prices i st] by simp
  next
    case (Insolvent s)
    then show ?thesis
      using tick_equity_length [of cfg prices i st] by simp
  qed
qed

lemma run_ticks_equity_other:
  "j \<notin> set idx \<Longrightarrow>
     equity_series (state_of (run_ticks cfg prices idx st)) ! j = equity_series st ! j"
proof (induction idx arbitrary: st)
  case Nil
  then show ?case by simp
next
  case (Cons i idx)
  then have ji: "j \<noteq> i" and jr: "j \<notin> set idx" by auto
  show ?case
  proof (cases "tick cfg prices i st")
    case (Next s)
    then show ?thesis
      using Cons.IH [OF jr, of s] tick_equity_other [OF ji, of cfg prices st] by simp
  next
    case (Insolvent s)
    then show ?thesis
      using tick_equity_other [OF ji, of cfg prices st] by simp
  qed
qed

lemma run_ticks_append:
  "run_ticks cfg prices (xs @ ys) st =
     (case run_ticks cfg prices xs st of
        Insolvent s \<Rightarrow> Insolvent s
      | Next s \<Rightarrow> run_ticks cfg prices ys s)"
  by (induction xs arbitrary: st) (auto split: tick_result.splits)

lemma run_ticks_split:
  assumes "run_ticks cfg prices (xs @ i # ys) st = Next s"
  obtains si si' where "run_ticks cfg prices xs st = Next si"
    and "tick cfg prices i si = Next si'"
    and "run_ticks cfg prices ys si' = Next s"
proof -
  obtain si where a: "run_ticks cfg prices xs st = Next si"
    using assms by (cases "run_ticks cfg prices xs st") (simp_all add: run_ticks_append)
  then have b: "run_ticks cfg prices (i # ys) si = Next s"
    using assms by (simp add: run_ticks_append)
  then obtain si' where c: "tick cfg prices i si = Next si'"
    by (cases "tick cfg prices i si") simp_all
  then have "run_ticks cfg prices ys si' = Next s"
    using b by simp
  then show ?thesis
    using a c that by blast
qed

lemma start_state_equity:
  "equity_series (start_state cfg prices) =
     (replicate (length prices) None)[0 := Some (init_capital cfg)]"
  by (simp add: start_state_def)

lemma upt_split_at: "1 \<le> i \<Longrightarrow> i < n \<Longrightarrow> [1..<n] = [1..<i] @ i # [Suc i..<n]"
proof -
  assume a: "1 \<le> i" and b: "i < n"
  have "[1..<i + (n - i)] = [1..<i] @ [i..<i + (n - i)]"
    using a by (rule upt_add_eq_append)
  then have "[1..<n] = [1..<i] @ [i..<n]"
    using b by simp
  then show ?thesis
    using b by (simp add: upt_conv_Cons)
qed

text \<open>
  Claim C1 (as amended): for every non-empty price series the equity series has exactly
  one slot per input tick and its first entry equals the initial capital, whether the run
  completes or stops on insolvency. In a completed run the slot of a later tick is missing
  exactly when the loop skipped that tick: an off-hours tick outside the end-of-day window,
  met with open positions, other than the liquidation on the last date from 14:29 on.
\<close>

theorem equity_series_slots:
  assumes "prices \<noteq> []"
  shows "length (equity_series (state_of (run_loop cfg prices))) = length prices
    \<and> equity_series (state_of (run_loop cfg prices)) ! 0 = Some (init_capital cfg)
    \<and> (\<forall>s i. run_loop cfg prices = Next s \<and> 1 \<le> i \<and> i < length prices \<longrightarrow>
          (equity_series s ! i = None \<longleftrightarrow>
             tick_skipped prices i
               (state_of (run_ticks cfg prices [1..<i] (start_state cfg prices)))))"
proof (intro conjI allI impI)
  show "length (equity_series (state_of (run_loop cfg prices))) = length prices"
    by (simp add: run_loop_def start_state_equity)
next
  have "0 \<notin> set [1..<length prices]" by simp
  then have "equity_series (state_of (run_loop cfg prices)) ! 0
      = equity_series (start_state cfg prices) ! 0"
    unfolding run_loop_def by (rule run_ticks_equity_other)
  then show "equity_series (state_of (run_loop cfg prices)) ! 0 = Some (init_capital cfg)"
    using assms by (simp add: start_state_equity)
next
  fix s i
  assume h: "run_loop cfg prices = Next s \<and> 1 \<le> i \<and> i < length prices"
  let ?st = "start_state cfg prices"
  have run: "run_ticks cfg prices ([1..<i] @ i # [Suc i..<length prices]) ?st = Next s"
    using h upt_split_at [of i "length prices"] by (simp add: run_loop_def)
  obtain si si' where a: "run_ticks cfg prices [1..<i] ?st = Next si"
    and b: "tick cfg prices i si = Next si'"
    and c: "run_ticks cfg prices [Suc i..<length prices] si' = Next s"
    using run_ticks_split [OF run] by blast
  have "length (equity_series (state_of (run_ticks cfg prices [1..<i] ?st)))
      = length (equity_series ?st)"
    by (rule run_ticks_equity_length)
  then have "length (equity_series si) = length (equity_series ?st)"
    by (simp only: a state_of.simps)
  then have len: "length (equity_series si) = length prices"
    by (simp add: start_state_equity)
  have before: "equity_series si ! i = None"
  proof -
    have "i \<notin> set [1..<i]" by simp
    then have "equity_series (state_of (run_ticks cfg prices [1..<i] ?st)) ! i
        = equity_series ?st ! i"
      by (rule run_ticks_equity_other)
    then have "equity_series si ! i = equity_series ?st ! i"
      by (simp only: a state_of.simps)
    then show ?thesis
      using h by (simp add: start_state_equity)
  qed
  have after: "equity_series s ! i = equity_series si' ! i"
  proof -
    have "i \<notin> set [Suc i..<length prices]" by simp
    then have "equity_series (state_of (run_ticks cfg prices [Suc i..<length prices] si')) ! i
        = equity_series si' ! i"
      by (rule run_ticks_equity_other)
    then show ?thesis using c by simp
  qed
  have "equity_series si' ! i = None \<longleftrightarrow> tick_skipped prices i si \<and> equity_series si ! i = None"
    using tick_equity_at [of i si cfg prices] len h b by simp
  then have "equity_series s ! i = None \<longleftrightarrow> tick_skipped prices i si"
    using after before by simp
  then show "equity_series s ! i = None \<longleftrightarrow>
      tick_skipped prices i (state_of (run_ticks cfg prices [1..<i] (start_state cfg prices)))"
    by (simp only: a state_of.simps)
qed

theorem equity_series_slots_witness:
  "prices_carry \<noteq> []
   \<and> length (equity_series carry_3) = length prices_carry
   \<and> equity_series carry_3 ! 0 = Some (init_capital default_config)
   \<and> equity_series carry_3 ! 3 = None
   \<and> tick_skipped prices_carry 3
        (state_of (run_ticks default_config prices_carry [1..<3]
           (start_state default_config prices_carry)))"
proof -
  have ne: "prices_carry \<noteq> []"
    by (simp add: prices_carry_def)
  note th = equity_series_slots [OF ne, of default_config, unfolded run_carry state_of.simps]
  have i3: "1 \<le> (3::nat) \<and> 3 < length prices_carry"
    by (simp add: prices_carry_def)
  have missing: "equity_series carry_3 ! 3 = None"
    by (simp add: carry_3_def)
  have "equity_series carry_3 ! 3 = None \<longleftrightarrow>
      tick_skipped prices_carry 3
        (state_of (run_ticks default_config prices_carry [1..<3]
           (start_state default_config prices_carry)))"
    using th i3 by blast
  then show ?thesis
    using th ne missing by blast
qed

text \<open>
  Claim C1 as stated fails on the run \<open>prices_carry\<close> (non-empty, strictly ascending in
  time, accepted and completed with metrics): its last tick is a pre-market tick met
  with an open position, the loop skips it, and its equity entry stays missing; the
  equity curve of the metrics has three entries for four ticks.
\<close>

theorem equity_entry_missing_counterexample:
  "prices_carry \<noteq> [] \<and> sorted_wrt (<) (map fst prices_carry)
   \<and> run_loop default_config prices_carry = Next carry_3
   \<and> backtest default_config prices_carry = Result carry_metrics
   \<and> equity_series carry_3 ! 3 = None
   \<and> length prices_carry = 4 \<and> length (equity_curve carry_metrics) = 3"
proof -
  have "prices_carry \<noteq> [] \<and> sorted_wrt (<) (map fst prices_carry)
     \<and> equity_series carry_3 ! 3 = None
     \<and> length prices_carry = 4 \<and> length (equity_curve carry_metrics) = 3"
    by (simp add: prices_carry_def carry_3_def carry_metrics_def clock_defs)
  then show ?thesis
    using run_carry backtest_carry by blast
qed

section \<open>The trade log explains the capital\<close>

lemma logged_profit_append [simp]:
  "logged_profit (xs @ ys) = logged_profit xs + logged_profit ys"
  by (simp add: logged_profit_def)

lemma logged_overnight_fees_append [simp]:
  "logged_overnight_fees (xs @ ys) = logged_overnight_fees xs + logged_overnight_fees ys"
  by (simp add: logged_overnight_fees_def)

lemma logged_profit_Nil [simp]: "logged_profit [] = 0"
  by (simp add: logged_profit_def)

lemma logged_overnight_fees_Nil [simp]: "logged_overnight_fees [] = 0"
  by (simp add: logged_overnight_fees_def)

lemma logged_profit_Cons [simp]: "logged_profit (r # rs) = tr_profit r + logged_profit rs"
  by (simp add: logged_profit_def)

lemma logged_overnight_fees_Cons [simp]:
  "logged_overnight_fees (r # rs) =
     (if tr_kind r = OVERNIGHT_FEE then tr_fee r else 0) + logged_overnight_fees rs"
  by (simp add: logged_overnight_fees_def)

lemma logged_profit_close_records [simp]:
  "logged_profit (map (close_record cfg p t) ps) = sum_list (map (close_profit cfg p) ps)"
  by (induction ps) (simp_all add: close_record_def)

lemma logged_overnight_fees_close_records [simp]:
  "logged_overnight_fees (map (close_record cfg p t) ps) = 0"
  by (induction ps) (simp_all add: close_record_def)

lemma close_all_positions_balance [simp]:
  "book_balance (fst (close_all_positions cfg p t st)) = book_balance st"
  by (simp add: close_all_positions_result book_balance_def)

lemma overnight_step_balance [simp]: "book_balance (overnight_step t st) = book_balance st"
  by (simp add: overnight_step_def apply_overnight_fee_def book_balance_def Let_def)

lemma daily_atr_step_balance [simp]:
  "book_balance (daily_atr_step prices t st) = book_balance st"
  by (simp add: daily_atr_step_def book_balance_def Let_def)

lemma init_grid_balance [simp]: "book_balance (init_grid cfg prices i a st) = book_balance st"
  by (simp add: init_grid_result book_balance_def split: option.splits)

lemma mark_equity_balance [simp]: "book_balance (mark_equity i v st) = book_balance st"
  by (simp add: mark_equity_def book_balance_def)

lemma rebase_pivot_balance [simp]:
  "book_balance (rebase_pivot cfg prices i st) = book_balance st"
proof -
  have "book_balance (rebase_pivot cfg prices i st)
      = book_balance (fst (close_all_positions cfg (snd (prices ! i)) (fst (prices ! i)) st))"
    unfolding rebase_pivot_result by (simp add: book_balance_def)
  then show ?thesis by simp
qed

lemma exit_positions_balance [simp]:
  "book_balance (fst (exit_positions cfg prices i tp ps st)) = book_balance st"
proof (induction ps arbitrary: st)
  case Nil
  then show ?case by simp
next
  case (Cons pos ps)
  let ?st' = "st\<lparr>capital := capital st +
        (unrealized_profit cfg (snd (prices ! i)) pos - fee_per_trade cfg * contract_value cfg),
      capital_np := True,
      positions := remove1 pos (positions st),
      trade_history := trade_history st @
        [\<lparr>tr_time = fst (prices ! i), tr_kind = TAKE_PROFIT (fst pos),
          tr_price = snd (prices ! i), tr_size = snd (snd pos),
          tr_profit = unrealized_profit cfg (snd (prices ! i)) pos
                        - fee_per_trade cfg * contract_value cfg,
          tr_fee = fee_per_trade cfg * contract_value cfg\<rparr>]\<rparr>"
  have "book_balance ?st' = book_balance st"
    by (simp add: book_balance_def)
  then have "book_balance (fst (exit_positions cfg prices i tp ps ?st')) = book_balance st"
    using Cons.IH [of ?st'] by simp
  then show ?case
    using Cons.IH [of st] by (simp add: Let_def)
qed

lemma try_buy_balance [simp]:
  "book_balance (snd (snd (snd (try_buy cfg p t g sz n acc)))) = book_balance (snd (snd acc))"
  by (cases acc) (simp add: try_buy_def Let_def book_balance_def split: list.splits)

lemma try_sell_balance [simp]:
  "book_balance (snd (snd (try_sell cfg p t g sz n acc))) = book_balance (snd (snd acc))"
  by (cases acc) (simp add: try_sell_def Let_def book_balance_def split: list.splits)

lemma check_daily_fee_balance [simp]:
  "book_balance (snd (check_daily_fee t fee st)) = book_balance st"
  by (simp add: check_daily_fee_def Let_def book_balance_def)

lemma open_entries_balance [simp]:
  "book_balance (open_entries cfg p t forced st) = book_balance st"
proof -
  obtain over st1 where c: "check_daily_fee t (Some 0) st = (over, st1)"
    by (cases "check_daily_fee t (Some 0) st") auto
  have "book_balance st1 = book_balance st"
    using check_daily_fee_balance [of t "Some 0" st] c by simp
  then show ?thesis
    using c by (simp add: open_entries_def Let_def grid_levels_frame [where f = book_balance])
qed

lemma evaluate_tick_balance [simp]:
  "book_balance (state_of (evaluate_tick cfg prices i a st)) = book_balance st"
proof -
  define st1 where "st1 = init_grid cfg prices i a st"
  define st2 where "st2 = (if pivot_breached cfg (snd (prices ! i)) st1
                           then rebase_pivot cfg prices i st1 else st1)"
  define tp where "tp = take_profit_factor cfg * the (grid_size st2) * contract_value cfg"
  obtain st3 forced where e: "exit_positions cfg prices i tp (positions st2) st2 = (st3, forced)"
    by (cases "exit_positions cfg prices i tp (positions st2) st2") auto
  have "book_balance st2 = book_balance st"
    by (simp add: st2_def st1_def)
  moreover have "book_balance (fst (exit_positions cfg prices i tp (positions st2) st2))
      = book_balance st2"
    by (rule exit_positions_balance)
  ultimately have b3: "book_balance st3 = book_balance st"
    by (simp only: e fst_conv)
  show ?thesis
    unfolding evaluate_tick_unfold Let_def st1_def [symmetric] st2_def [symmetric] tp_def [symmetric] e
    using b3 by simp
qed

lemma tick_balance [simp]: "book_balance (state_of (tick cfg prices i st)) = book_balance st"
  by (simp add: tick_def Let_def)

lemma run_ticks_balance [simp]:
  "book_balance (state_of (run_ticks cfg prices idx st)) = book_balance st"
proof (induction idx arbitrary: st)
  case Nil
  then show ?case by simp
next
  case (Cons i idx)
  show ?case
  proof (cases "tick cfg prices i st")
    case (Next s)
    then show ?thesis
      using Cons.IH [of s] tick_balance [of cfg prices i st] by simp
  next
    case (Insolvent s)
    then show ?thesis
      using tick_balance [of cfg prices i st] by simp
  qed
qed

lemma run_loop_balance:
  "capital (state_of (run_loop cfg prices)) - init_capital cfg =
     logged_profit (trade_history (state_of (run_loop cfg prices)))
       - logged_overnight_fees (trade_history (state_of (run_loop cfg prices)))"
proof -
  have "book_balance (state_of (run_loop cfg prices)) = book_balance (start_state cfg prices)"
    by (simp add: run_loop_def)
  also have "\<dots> = init_capital cfg"
    by (simp add: book_balance_def start_state_def)
  finally show ?thesis
    by (simp add: book_balance_def)
qed

section \<open>The last equity entry\<close>

lemma current_equity_flat: "positions st = [] \<Longrightarrow> current_equity cfg p st = capital st"
  by (simp add: current_equity_def)

lemma mark_equity_capital [simp]: "capital (mark_equity i v st) = capital st"
  by (simp add: mark_equity_def)

lemma evaluate_tick_last_mark:
  assumes "i < length (equity_series st)"
    and "positions (state_of (evaluate_tick cfg prices i a st)) = []"
  shows "equity_series (state_of (evaluate_tick cfg prices i a st)) ! i
           = Some (capital (state_of (evaluate_tick cfg prices i a st)))"
proof -
  define st1 where "st1 = init_grid cfg prices i a st"
  define st2 where "st2 = (if pivot_breached cfg (snd (prices ! i)) st1
                           then rebase_pivot cfg prices i st1 else st1)"
  define tp where "tp = take_profit_factor cfg * the (grid_size st2) * contract_value cfg"
  obtain st3 forced where e: "exit_positions cfg prices i tp (positions st2) st2 = (st3, forced)"
    by (cases "exit_positions cfg prices i tp (positions st2) st2") auto
  define st4 where "st4 = open_entries cfg (snd (prices ! i)) (fst (prices ! i)) forced st3"
  have "equity_series st2 = equity_series st"
    by (simp add: st2_def st1_def)
  moreover have "equity_series (fst (exit_positions cfg prices i tp (positions st2) st2))
      = equity_series st2"
    by (rule exit_positions_equity)
  ultimately have "equity_series st3 = equity_series st"
    by (simp only: e fst_conv)
  then have len: "i < length (equity_series st4)"
    using assms(1) by (simp add: st4_def)
  show ?thesis
    using assms(2) len
    unfolding evaluate_tick_unfold Let_def st1_def [symmetric] st2_def [symmetric]
      tp_def [symmetric] e prod.case st4_def [symmetric]
    by (auto simp: current_equity_flat split: if_splits)
qed

lemma tick_last_mark:
  assumes "i < length (equity_series st)"
    and "positions (state_of (tick cfg prices i st)) = []"
  shows "equity_series (state_of (tick cfg prices i st)) ! i
           = Some (capital (state_of (tick cfg prices i st)))"
proof -
  define t where "t = fst (prices ! i)"
  define st2 where "st2 = daily_atr_step prices t (overnight_step t st)"
  have len: "i < length (equity_series st2)"
    using assms(1) by (simp add: st2_def)
  show ?thesis
    using assms(2) len evaluate_tick_last_mark [OF len, of cfg prices "current_atr_of t st2"]
    unfolding tick_def Let_def t_def [symmetric] st2_def [symmetric]
    by (auto split: if_splits)
qed

lemma dropna_indexed_last:
  "length es = length qs \<Longrightarrow> es \<noteq> [] \<Longrightarrow> last es = Some e \<Longrightarrow>
     dropna_indexed qs es \<noteq> [] \<and> snd (last (dropna_indexed qs es)) = e"
proof (induction es qs rule: list_induct2)
  case Nil
  then show ?case by simp
next
  case (Cons x es q qs)
  show ?case
  proof (cases "es = []")
    case True
    then show ?thesis using Cons by simp
  next
    case False
    then have "dropna_indexed qs es \<noteq> [] \<and> snd (last (dropna_indexed qs es)) = e"
      using Cons by simp
    then show ?thesis by (cases x) simp_all
  qed
qed

lemma run_loop_equity_length:
  "length (equity_series (state_of (run_loop cfg prices))) = length prices"
  by (simp add: run_loop_def start_state_equity)

lemma run_loop_last_mark:
  assumes ne: "prices \<noteq> []"
    and run: "run_loop cfg prices = Next s"
    and flat: "positions s = []"
  shows "last (equity_series s) = Some (capital s)"
proof -
  let ?st = "start_state cfg prices"
  define n where "n = length prices"
  have n1: "1 \<le> n"
    using ne by (cases prices) (simp_all add: n_def)
  have "length (equity_series (state_of (run_loop cfg prices))) = n"
    unfolding n_def by (rule run_loop_equity_length)
  then have len_s: "length (equity_series s) = n"
    by (simp only: run state_of.simps)
  have run': "run_ticks cfg prices [1..<n] ?st = Next s"
    using run unfolding run_loop_def n_def .
  have nth: "equity_series s ! (n - 1) = Some (capital s)"
  proof (cases "n = 1")
    case True
    have e: "[1..<n] = []"
      using True by simp
    have "run_ticks cfg prices [] ?st = Next s"
      using run' by (simp only: e)
    then have "s = ?st"
      by simp
    then show ?thesis
      using True ne unfolding n_def by (simp add: start_state_def)
  next
    case False
    then have big: "1 \<le> n - 1" "n - 1 < n"
      using n1 by arith+
    have "[Suc (n - 1)..<n] = []"
      using n1 by simp
    then have split: "[1..<n] = [1..<n - 1] @ (n - 1) # []"
      using upt_split_at [OF big] by (simp only:)
    have "run_ticks cfg prices ([1..<n - 1] @ (n - 1) # []) ?st = Next s"
      using run' by (simp only: split)
    then obtain si si' where a: "run_ticks cfg prices [1..<n - 1] ?st = Next si"
      and b: "tick cfg prices (n - 1) si = Next si'"
      and c: "run_ticks cfg prices [] si' = Next s"
      using run_ticks_split by blast
    have s': "si' = s"
      using c by simp
    have "length (equity_series (state_of (run_ticks cfg prices [1..<n - 1] ?st)))
        = length (equity_series ?st)"
      by (rule run_ticks_equity_length)
    then have "length (equity_series si) = length (equity_series ?st)"
      by (simp only: a state_of.simps)
    then have len: "n - 1 < length (equity_series si)"
      using big by (simp add: start_state_equity n_def)
    have "positions (state_of (tick cfg prices (n - 1) si)) = []"
      using flat by (simp only: b s' state_of.simps)
    then have "equity_series (state_of (tick cfg prices (n - 1) si)) ! (n - 1)
        = Some (capital (state_of (tick cfg prices (n - 1) si)))"
      by (rule tick_last_mark [OF len])
    then show ?thesis
      by (simp only: b s' state_of.simps)
  qed
  have "equity_series s \<noteq> []"
    using len_s n1 by auto
  then show ?thesis
    using nth len_s by (simp add: last_conv_nth)
qed

text \<open>
  Claim C9 (as amended): for every completed run, the realised capital at the end minus
  the initial capital equals the sum of the profit fields of all trade records minus the
  sum of the fee fields of the OVERNIGHT\_FEE records (the profit fields are already net
  of the per-trade fee, and the TOTAL\_FEE records repeat fees already counted); and the
  reported \<open>final_capital\<close> is that realised capital whenever no position is open when the
  run ends.
\<close>

theorem trade_log_explains_capital:
  assumes "backtest cfg prices = Result m"
  shows "capital (state_of (run_loop cfg prices)) - init_capital cfg =
           logged_profit (trade_history (state_of (run_loop cfg prices)))
             - logged_overnight_fees (trade_history (state_of (run_loop cfg prices)))
         \<and> (positions (state_of (run_loop cfg prices)) = [] \<longrightarrow>
              final_capital m = capital (state_of (run_loop cfg prices)))"
proof (intro conjI impI)
  show "capital (state_of (run_loop cfg prices)) - init_capital cfg =
           logged_profit (trade_history (state_of (run_loop cfg prices)))
             - logged_overnight_fees (trade_history (state_of (run_loop cfg prices)))"
    by (rule run_loop_balance)
next
  define s where "s = state_of (run_loop cfg prices)"
  assume "positions (state_of (run_loop cfg prices)) = []"
  then have flat: "positions s = []"
    by (simp only: s_def)
  have ne: "prices \<noteq> []" and run: "run_loop cfg prices = Next s"
    and met: "calculate_performance_metrics cfg prices s = Result m"
    using backtest_Result [OF assms] unfolding s_def by blast+
  have last: "last (equity_series s) = Some (capital s)"
    using ne run flat by (rule run_loop_last_mark)
  have len: "length (equity_series s) = length prices"
    unfolding s_def by (rule run_loop_equity_length)
  have nonempty: "equity_series s \<noteq> []"
    using len ne by auto
  have fin: "snd (last (dropna_indexed prices (equity_series s))) = capital s"
    using dropna_indexed_last [OF len nonempty last] by blast
  have "final_capital m = snd (last (dropna_indexed prices (equity_series s)))"
    using met by (auto simp: calculate_performance_metrics_def Let_def split: if_splits)
  then show "final_capital m = capital (state_of (run_loop cfg prices))"
    using fin by (simp only: s_def)
qed

lemma backtest_two_day: "backtest default_config prices_two_day = Result two_day_metrics"
proof -
  have ne: "prices_two_day \<noteq> []"
    by (simp add: prices_two_day_def)
  have "calculate_performance_metrics default_config prices_two_day two_day_4
      = Result two_day_metrics"
    by (simp add: calculate_performance_metrics_def prices_two_day_def two_day_4_def
        two_day_metrics_def default_config_def clock_defs)
  then show ?thesis
    using ne by (simp add: backtest_def run_two_day)
qed

theorem trade_log_explains_capital_witness:
  "backtest default_config prices_two_day = Result two_day_metrics
   \<and> run_loop default_config prices_two_day = Next two_day_4
   \<and> positions two_day_4 = []
   \<and> capital two_day_4 - init_capital default_config =
        logged_profit (trade_history two_day_4) - logged_overnight_fees (trade_history two_day_4)
   \<and> final_capital two_day_metrics = capital two_day_4
   \<and> capital two_day_4 - init_capital default_config = - 47000"
proof -
  note th = trade_log_explains_capital [OF backtest_two_day, unfolded run_two_day state_of.simps]
  have flat: "positions two_day_4 = []"
    by (simp add: two_day_4_def)
  have delta: "capital two_day_4 - init_capital default_config = - 47000"
    by (simp add: two_day_4_def default_config_def)
  show ?thesis
    using th flat delta backtest_two_day run_two_day by blast
qed

text \<open>
  Claim C9 as stated fails on the run \<open>prices_carry\<close>, which completes with metrics: the
  series ends on a skipped pre-market tick with a position still open, so the reported
  \<open>final_capital\<close> is the last marked equity, 50000 below the initial capital, an
  unrealised loss that no trade record carries. The profit fields of the log sum to 0
  and its fee fields to 2550, so no way of summing them gives -50000.
\<close>

theorem trade_log_round_trip_counterexample:
  "backtest default_config prices_carry = Result carry_metrics
   \<and> run_loop default_config prices_carry = Next carry_3
   \<and> final_capital carry_metrics - init_capital default_config = - 50000
   \<and> sum_list (map tr_profit (trade_history carry_3)) = 0
   \<and> sum_list (map tr_fee (trade_history carry_3)) = 2550"
proof -
  have "final_capital carry_metrics - init_capital default_config = - 50000
     \<and> sum_list (map tr_profit (trade_history carry_3)) = 0
     \<and> sum_list (map tr_fee (trade_history carry_3)) = 2550"
    by (simp add: carry_metrics_def default_config_def carry_3_def)
  then show ?thesis
    using backtest_carry run_carry by blast
qed

section \<open>The per-day state in general\<close>

text \<open>
  Two facts behind the failures of claims C4 and C7, for every run: once set, the daily
  ATR is never written again; and the daily fee accumulator never leaves 0.
\<close>

lemma try_buy_daily [simp]:
  "daily_atr (snd (snd (snd (try_buy cfg p t g sz n acc)))) = daily_atr (snd (snd acc))"
  "daily_fee (snd (snd (snd (try_buy cfg p t g sz n acc)))) = daily_fee (snd (snd acc))"
  by (cases acc; simp add: try_buy_def Let_def split: list.splits)+

lemma try_sell_daily [simp]:
  "daily_atr (snd (snd (try_sell cfg p t g sz n acc))) = daily_atr (snd (snd acc))"
  "daily_fee (snd (snd (try_sell cfg p t g sz n acc))) = daily_fee (snd (snd acc))"
  by (cases acc; simp add: try_sell_def Let_def split: list.splits)+

lemma open_entries_daily_atr [simp]:
  "daily_atr (open_entries cfg p t forced st) = daily_atr st"
  by (simp add: open_entries_def check_daily_fee_def Let_def
      grid_levels_frame [where f = daily_atr])

lemma open_entries_daily_fee:
  "daily_fee st = 0 \<Longrightarrow> daily_fee (open_entries cfg p t forced st) = 0"
  by (simp add: open_entries_def check_daily_fee_def Let_def
      grid_levels_frame [where f = daily_fee])

lemma close_all_positions_daily [simp]:
  "daily_atr (fst (close_all_positions cfg p t st)) = daily_atr st"
  "daily_fee (fst (close_all_positions cfg p t st)) = daily_fee st"
  by (simp_all add: close_all_positions_result)

lemma rebase_pivot_daily [simp]:
  "daily_atr (rebase_pivot cfg prices i st) = daily_atr st"
  "daily_fee (rebase_pivot cfg prices i st) = daily_fee st"
  by (simp_all add: rebase_pivot_result)

lemma exit_positions_daily [simp]:
  "daily_atr (fst (exit_positions cfg prices i tp ps st)) = daily_atr st"
  "daily_fee (fst (exit_positions cfg prices i tp ps st)) = daily_fee st"
  by (induction ps arbitrary: st; simp add: Let_def)+

lemma init_grid_daily [simp]:
  "daily_atr (init_grid cfg prices i a st) = daily_atr st"
  "daily_fee (init_grid cfg prices i a st) = daily_fee st"
  by (simp_all add: init_grid_result split: option.splits)

lemma overnight_step_daily [simp]:
  "daily_atr (overnight_step t st) = daily_atr st"
  "daily_fee (overnight_step t st) = daily_fee st"
  by (simp_all add: overnight_step_def apply_overnight_fee_def Let_def)

lemma daily_atr_step_daily_fee [simp]:
  "daily_fee (daily_atr_step prices t st) = daily_fee st"
  by (simp add: daily_atr_step_def Let_def)

lemma daily_atr_step_kept:
  "daily_atr st = Some a \<Longrightarrow> daily_atr (daily_atr_step prices t st) = Some a"
  by (simp add: daily_atr_step_def)

lemma mark_equity_daily [simp]:
  "daily_atr (mark_equity i v st) = daily_atr st"
  "daily_fee (mark_equity i v st) = daily_fee st"
  by (simp_all add: mark_equity_def)

lemma evaluate_tick_daily:
  "daily_atr (state_of (evaluate_tick cfg prices i a st)) = daily_atr st"
  "daily_fee st = 0 \<Longrightarrow> daily_fee (state_of (evaluate_tick cfg prices i a st)) = 0"
proof -
  define st1 where "st1 = init_grid cfg prices i a st"
  define st2 where "st2 = (if pivot_breached cfg (snd (prices ! i)) st1
                           then rebase_pivot cfg prices i st1 else st1)"
  define tp where "tp = take_profit_factor cfg * the (grid_size st2) * contract_value cfg"
  obtain st3 forced where e: "exit_positions cfg prices i tp (positions st2) st2 = (st3, forced)"
    by (cases "exit_positions cfg prices i tp (positions st2) st2") auto
  have "daily_atr st2 = daily_atr st" "daily_fee st2 = daily_fee st"
    by (simp_all add: st2_def st1_def)
  moreover have "daily_atr (fst (exit_positions cfg prices i tp (positions st2) st2)) = daily_atr st2"
    "daily_fee (fst (exit_positions cfg prices i tp (positions st2) st2)) = daily_fee st2"
    by (rule exit_positions_daily)+
  ultimately have d3: "daily_atr st3 = daily_atr st" "daily_fee st3 = daily_fee st"
    by (simp_all only: e fst_conv)
  show "daily_atr (state_of (evaluate_tick cfg prices i a st)) = daily_atr st"
    unfolding evaluate_tick_unfold Let_def st1_def [symmetric] st2_def [symmetric] tp_def [symmetric] e
    using d3 by simp
  show "daily_fee st = 0 \<Longrightarrow> daily_fee (state_of (evaluate_tick cfg prices i a st)) = 0"
    unfolding evaluate_tick_unfold Let_def st1_def [symmetric] st2_def [symmetric] tp_def [symmetric] e
    using d3 by (simp add: open_entries_daily_fee)
qed

lemma tick_daily_atr_kept:
  "daily_atr st = Some a \<Longrightarrow> daily_atr (state_of (tick cfg prices i st)) = Some a"
  by (simp add: tick_def Let_def evaluate_tick_daily daily_atr_step_kept)

lemma tick_daily_fee_zero:
  "daily_fee st = 0 \<Longrightarrow> daily_fee (state_of (tick cfg prices i st)) = 0"
  by (simp add: tick_def Let_def evaluate_tick_daily)

lemma run_ticks_daily_atr_kept:
  "daily_atr st = Some a \<Longrightarrow> daily_atr (state_of (run_ticks cfg prices idx st)) = Some a"
proof (induction idx arbitrary: st)
  case Nil
  then show ?case by simp
next
  case (Cons i idx)
  show ?case
  proof (cases "tick cfg prices i st")
    case (Next s)
    then have "daily_atr s = Some a"
      using tick_daily_atr_kept [OF Cons.prems, of cfg prices i] by simp
    then show ?thesis
      using Next Cons.IH by simp
  next
    case (Insolvent s)
    then show ?thesis
      using tick_daily_atr_kept [OF Cons.prems, of cfg prices i] by simp
  qed
qed

lemma run_ticks_daily_fee_zero:
  "daily_fee st = 0 \<Longrightarrow> daily_fee (state_of (run_ticks cfg prices idx st)) = 0"
proof (induction idx arbitrary: st)
  case Nil
  then show ?case by simp
next
  case (Cons i idx)
  show ?case
  proof (cases "tick cfg prices i st")
    case (Next s)
    then have "daily_fee s = 0"
      using tick_daily_fee_zero [OF Cons.prems, of cfg prices i] by simp
    then show ?thesis
      using Next Cons.IH by simp
  next
    case (Insolvent s)
    then show ?thesis
      using tick_daily_fee_zero [OF Cons.prems, of cfg prices i] by simp
  qed
qed

lemma daily_fee_stays_zero:
  "daily_fee (state_of (run_ticks cfg prices [1..<k] (start_state cfg prices))) = 0"
  by (rule run_ticks_daily_fee_zero) (simp add: start_state_def)

section \<open>The ledger after a pivot move\<close>

lemma exit_phase_moved:
  assumes "pivot_breached cfg (snd (prices ! i)) (init_grid cfg prices i a st)
           \<or> max_loss_hit cfg (snd (prices ! i))
                (take_profit_factor cfg * the (grid_size (init_grid cfg prices i a st))
                   * contract_value cfg)
                (positions (init_grid cfg prices i a st))"
  shows "positions (fst (exit_phase cfg prices i a st)) = []
         \<and> current_pivot (fst (exit_phase cfg prices i a st)) = snd (prices ! i)"
proof (cases "pivot_breached cfg (snd (prices ! i)) (init_grid cfg prices i a st)")
  case True
  then show ?thesis
    by (simp add: exit_phase_def Let_def)
next
  case False
  then have hit: "max_loss_hit cfg (snd (prices ! i))
      (take_profit_factor cfg * the (grid_size (init_grid cfg prices i a st)) * contract_value cfg)
      (positions (init_grid cfg prices i a st))"
    using assms by blast
  show ?thesis
    using False hit
    by (simp add: exit_phase_def Let_def exit_positions_forced_empty exit_positions_pivot)
qed

lemma tick_in_session:
  assumes "is_trading_time (fst (prices ! i))" and "\<not> is_end_of_day (fst (prices ! i))"
  shows "tick cfg prices i st = entry_phase cfg prices i (tick_exits cfg prices i st)"
proof -
  have late: "\<not> time_of_day (fst (prices ! i)) \<ge> time_hm 14 29"
    using assms session_before_close by blast
  show ?thesis
    using assms late by (simp add: tick_def tick_exits_def evaluate_tick_def Let_def)
qed

lemma tick_exits_moved:
  assumes "pivot_moved cfg prices i st"
  shows "positions (fst (tick_exits cfg prices i st)) = []
         \<and> current_pivot (fst (tick_exits cfg prices i st)) = snd (prices ! i)"
proof -
  define t where "t = fst (prices ! i)"
  define st2 where "st2 = daily_atr_step prices t (overnight_step t st)"
  define a where "a = current_atr_of t st2"
  have "pivot_breached cfg (snd (prices ! i)) (init_grid cfg prices i a st2)
           \<or> max_loss_hit cfg (snd (prices ! i))
                (take_profit_factor cfg * the (grid_size (init_grid cfg prices i a st2))
                   * contract_value cfg)
                (positions (init_grid cfg prices i a st2))"
    using assms
    unfolding pivot_moved_def at_breach_check_def pivot_breached_def Let_def
      t_def [symmetric] st2_def [symmetric] a_def [symmetric]
    by blast
  then have "positions (fst (exit_phase cfg prices i a st2)) = []
         \<and> current_pivot (fst (exit_phase cfg prices i a st2)) = snd (prices ! i)"
    by (rule exit_phase_moved)
  then show ?thesis
    unfolding tick_exits_def Let_def t_def [symmetric] st2_def [symmetric] a_def [symmetric] .
qed

lemma list_all_remove1: "list_all P xs \<Longrightarrow> list_all P (remove1 x xs)"
  by (induction xs) auto

lemma grid_levels_invariant:
  assumes "\<And>n acc. P (snd (snd acc)) \<Longrightarrow> P (snd (snd (snd (try_buy cfg p t g sz n acc))))"
    and "\<And>n acc. P (snd (snd acc)) \<Longrightarrow> P (snd (snd (try_sell cfg p t g sz n acc)))"
    and "P (snd (snd acc))"
  shows "P (grid_levels cfg p t g sz ns acc)"
  using assms(3)
proof (induction ns arbitrary: acc)
  case Nil
  then show ?case by simp
next
  case (Cons n ns)
  obtain paired acc1 where tb: "try_buy cfg p t g sz n acc = (paired, acc1)"
    by (cases "try_buy cfg p t g sz n acc") auto
  have a1: "P (snd (snd acc1))"
    using assms(1) [OF Cons.prems, of n] tb by simp
  show ?case
    using Cons.IH [OF a1] Cons.IH [OF assms(2) [OF a1, of n]] tb by simp
qed

lemma try_buy_entered_now:
  "list_all (\<lambda>q. fst (snd q) = p) (positions (snd (snd acc))) \<Longrightarrow>
     list_all (\<lambda>q. fst (snd q) = p) (positions (snd (snd (snd (try_buy cfg p t g sz n acc)))))"
  by (cases acc) (simp add: try_buy_def Let_def list_all_remove1 split: list.splits)

lemma try_sell_entered_now:
  "list_all (\<lambda>q. fst (snd q) = p) (positions (snd (snd acc))) \<Longrightarrow>
     list_all (\<lambda>q. fst (snd q) = p) (positions (snd (snd (try_sell cfg p t g sz n acc))))"
  by (cases acc) (simp add: try_sell_def Let_def list_all_remove1 split: list.splits)

lemma open_entries_entered_now:
  assumes "list_all (\<lambda>q. fst (snd q) = p) (positions st)"
  shows "list_all (\<lambda>q. fst (snd q) = p) (positions (open_entries cfg p t forced st))"
proof -
  obtain over st1 where c: "check_daily_fee t (Some 0) st = (over, st1)"
    by (cases "check_daily_fee t (Some 0) st") auto
  have "positions st1 = positions st"
    using check_daily_fee_positions [of t "Some 0" st] c by simp
  then have p1: "list_all (\<lambda>q. fst (snd q) = p) (positions st1)"
    using assms by simp
  have "list_all (\<lambda>q. fst (snd q) = p)
      (positions (grid_levels cfg p t g sz ns (nb, nsl, st1)))" for g sz ns nb nsl
    by (rule grid_levels_invariant
          [where P = "\<lambda>s. list_all (\<lambda>q. fst (snd q) = p) (positions s)"])
       (simp_all add: try_buy_entered_now try_sell_entered_now p1)
  then show ?thesis
    using assms p1 c by (simp add: open_entries_def Let_def)
qed

lemma entry_phase_entered_now:
  assumes "positions (fst r) = []"
  shows "list_all (\<lambda>q. fst (snd q) = snd (prices ! i))
           (positions (state_of (entry_phase cfg prices i r)))"
proof -
  obtain st3 forced where r: "r = (st3, forced)"
    by (cases r) auto
  have "list_all (\<lambda>q. fst (snd q) = snd (prices ! i)) (positions st3)"
    using assms r by simp
  then have "list_all (\<lambda>q. fst (snd q) = snd (prices ! i))
      (positions (open_entries cfg (snd (prices ! i)) (fst (prices ! i)) forced st3))"
    by (rule open_entries_entered_now)
  then show ?thesis
    by (simp add: entry_phase_def r Let_def)
qed

text \<open>
  Claim C3 (as amended): a tick moves the pivot exactly when it lies in the evaluated
  session (09:00 up to but excluding 14:29) and either the price is strictly outside
  \<open>[pivot - move_pivot * grid_size, pivot + move_pivot * grid_size]\<close> or the max-loss check
  fires on an open position; the pivot then equals the price of that tick, and otherwise
  keeps its value. On a tick that moves the pivot, when the exit checks are done the pivot
  is the tick's price and the ledger is empty; the rest of the tick runs from that object,
  so that at the end of the tick the ledger holds nothing but positions entered at that
  tick's price.
\<close>

theorem pivot_rebase_rule:
  "current_pivot (state_of (tick cfg prices i st)) =
     (if pivot_moved cfg prices i st then snd (prices ! i) else current_pivot st)
   \<and> (pivot_moved cfg prices i st \<longrightarrow>
        tick cfg prices i st = entry_phase cfg prices i (tick_exits cfg prices i st)
        \<and> current_pivot (fst (tick_exits cfg prices i st)) = snd (prices ! i)
        \<and> positions (fst (tick_exits cfg prices i st)) = []
        \<and> list_all (\<lambda>q. fst (snd q) = snd (prices ! i))
             (positions (state_of (tick cfg prices i st))))"
proof (intro conjI impI)
  show "current_pivot (state_of (tick cfg prices i st)) =
     (if pivot_moved cfg prices i st then snd (prices ! i) else current_pivot st)"
    by (rule tick_pivot)
next
  assume m: "pivot_moved cfg prices i st"
  then have sess: "is_trading_time (fst (prices ! i))" "\<not> is_end_of_day (fst (prices ! i))"
    unfolding pivot_moved_def Let_def by blast+
  show eq: "tick cfg prices i st = entry_phase cfg prices i (tick_exits cfg prices i st)"
    using sess by (rule tick_in_session)
  show "current_pivot (fst (tick_exits cfg prices i st)) = snd (prices ! i)"
    using tick_exits_moved [OF m] by blast
  show empty: "positions (fst (tick_exits cfg prices i st)) = []"
    using tick_exits_moved [OF m] by blast
  show "list_all (\<lambda>q. fst (snd q) = snd (prices ! i))
          (positions (state_of (tick cfg prices i st)))"
    unfolding eq using empty by (rule entry_phase_entered_now)
qed

theorem pivot_rebase_rule_witness:
  "pivot_moved tight_config prices_stop 2 stop_1
   \<and> positions stop_1 = [(BUY, 99, 1)]
   \<and> current_pivot (state_of (tick tight_config prices_stop 2 stop_1)) = 93
   \<and> current_pivot (fst (tick_exits tight_config prices_stop 2 stop_1)) = 93
   \<and> positions (fst (tick_exits tight_config prices_stop 2 stop_1)) = []
   \<and> positions (state_of (tick tight_config prices_stop 2 stop_1)) = []"
proof -
  note th = pivot_rebase_rule [of tight_config prices_stop 2 stop_1]
  have price: "snd (prices_stop ! 2) = 93"
    by (simp add: prices_stop_def)
  have after: "current_pivot (state_of (tick tight_config prices_stop 2 stop_1)) = 93"
    "positions (state_of (tick tight_config prices_stop 2 stop_1)) = []"
    by (simp_all add: tick_stop_2 stop_2_def)
  have before: "current_pivot stop_1 = 100" "positions stop_1 = [(BUY, 99, 1)]"
    by (simp_all add: stop_1_def)
  have moved: "pivot_moved tight_config prices_stop 2 stop_1"
    using th after(1) before(1) price by (auto split: if_splits)
  show ?thesis
    using th moved after before price by simp
qed

section \<open>Turnover over the capital at the end of the run\<close>

text \<open>
  Where the capital is zero and still a Python number the call raises: with no capital
  and a flat series nothing is traded, and \<open>0 * contract_value / 0\<close> is evaluated.
\<close>

lemma backtest_zero_capital_raises:
  "backtest zero_config prices_flat = Raised ZeroDivisionError"
proof -
  have s: "start_state zero_config prices_flat =
      \<lparr>capital = 0, positions = [], trades = [], trade_history = [],
       last_date = 0, daily_fee = 0, last_valid_atr = 1, daily_atr = None,
       current_pivot = 100, equity_series = [Some 0, None],
       grid_size = None, size_lvl = 0, capital_np = False\<rparr>"
    by (simp add: start_state_def zero_config_def prices_flat_def clock_defs)
  have t: "tick zero_config prices_flat 1
      \<lparr>capital = 0, positions = [], trades = [], trade_history = [],
       last_date = 0, daily_fee = 0, last_valid_atr = 1, daily_atr = None,
       current_pivot = 100, equity_series = [Some 0, None],
       grid_size = None, size_lvl = 0, capital_np = False\<rparr>
    = Next \<lparr>capital = 0, positions = [], trades = [], trade_history = [],
       last_date = 1, daily_fee = 0, last_valid_atr = 1, daily_atr = Some 1,
       current_pivot = 100, equity_series = [Some 0, Some 0],
       grid_size = Some (147 / 100), size_lvl = 1, capital_np = False\<rparr>"
    by (simp add: engine_defs clock_defs zero_config_def prices_flat_def upt_rec)
  have i: "[1..<length prices_flat] = [1]"
    by (simp add: prices_flat_def)
  have r: "run_loop zero_config prices_flat =
      Next \<lparr>capital = 0, positions = [], trades = [], trade_history = [],
       last_date = 1, daily_fee = 0, last_valid_atr = 1, daily_atr = Some 1,
       current_pivot = 100, equity_series = [Some 0, Some 0],
       grid_size = Some (147 / 100), size_lvl = 1, capital_np = False\<rparr>"
    unfolding run_loop_def i s
    by (simp only: run_ticks.simps tick_result.simps t)
  have ne: "prices_flat \<noteq> []"
    by (simp add: prices_flat_def)
  show ?thesis
    using ne unfolding backtest_def r
    by (simp add: calculate_performance_metrics_def prices_flat_def clock_defs)
qed

text \<open>
  Claim C5 (as amended): the reported turnover ratio is the sum of the absolute trade
  sizes times \<open>contract_value\<close>, divided by the capital as it stands when the run ends
  (the realised capital, not the initial one), times 100.
\<close>

theorem turnover_ratio_over_final_capital:
  "backtest cfg prices = Result m \<Longrightarrow>
   capital (state_of (run_loop cfg prices)) \<noteq> 0 \<Longrightarrow>
     turnover_ratio m =
       Some (sum_list (map (\<lambda>trade. \<bar>snd (snd (snd trade))\<bar>)
                        (trades (state_of (run_loop cfg prices))))
               * contract_value cfg / capital (state_of (run_loop cfg prices)) * 100)"
proof -
  assume r: "backtest cfg prices = Result m"
    and nz: "capital (state_of (run_loop cfg prices)) \<noteq> 0"
  define s where "s = state_of (run_loop cfg prices)"
  have "calculate_performance_metrics cfg prices s = Result m"
    using backtest_Result [OF r] by (simp add: s_def)
  moreover have "capital s \<noteq> 0"
    using nz by (simp add: s_def)
  ultimately have "turnover_ratio m =
      Some (sum_list (map (\<lambda>trade. \<bar>snd (snd (snd trade))\<bar>) (trades s))
              * contract_value cfg / capital s * 100)"
    by (auto simp: calculate_performance_metrics_def Let_def split: if_splits)
  then show ?thesis
    by (simp add: s_def)
qed

theorem turnover_ratio_over_final_capital_witness:
  "backtest default_config prices_carry = Result carry_metrics
   \<and> capital (state_of (run_loop default_config prices_carry)) = 499997450
   \<and> turnover_ratio carry_metrics = Some (1 * 100000 / 499997450 * 100)"
proof -
  have a: "capital (state_of (run_loop default_config prices_carry)) = 499997450"
    unfolding run_carry state_of.simps by (simp add: carry_3_def)
  then have nz: "capital (state_of (run_loop default_config prices_carry)) \<noteq> 0"
    by simp
  have "turnover_ratio carry_metrics =
      Some (sum_list (map (\<lambda>trade. \<bar>snd (snd (snd trade))\<bar>) (trades carry_3))
              * contract_value default_config / capital carry_3 * 100)"
    using turnover_ratio_over_final_capital [OF backtest_carry nz]
    unfolding run_carry state_of.simps .
  then have b: "turnover_ratio carry_metrics = Some (1 * 100000 / 499997450 * 100)"
    by (simp add: carry_3_def default_config_def)
  show ?thesis
    using a b backtest_carry by blast
qed

end
